theory Spec2Isabelle
  imports Main "HOL-Library.Word" "HOL-Library.Monad_Syntax"
begin

unbundle bit_operations_syntax

section \<open>rngd.c: the random number generator daemon\<close>

text \<open>
  A shallow embedding of \<^verbatim>\<open>rngd.c\<close>. The process is sequential code over global
  variables that talks to the operating system and to collaborators in other
  translation units. Globals are fields of a state record, every answer of the outside
  world (system call results, signals, what other files do) is read from an environment
  record, and what the process does to the outside world is appended to a list of events.
\<close>

subsection \<open>Exit codes, log lines and events\<close>

text \<open>
  Modelled from the spec: \<^verbatim>\<open>exits.h\<close> is not among the sources. The interface
  section lists three process exit codes, success, usage/configuration error and
  operating-system/resource error, as distinct values of an external contract;
  \<^verbatim>\<open>rngd.c\<close> names them \<^verbatim>\<open>EXIT_SUCCESS\<close>, \<^verbatim>\<open>EXIT_USAGE\<close> and \<^verbatim>\<open>EXIT_OSERR\<close>.
\<close>

datatype exit_code = EXIT_SUCCESS | EXIT_USAGE | EXIT_OSERR

text \<open>
  An argument of a log call. \<^verbatim>\<open>%d\<close> consumes a C \<^verbatim>\<open>int\<close>, a 32-bit word read as
  two's complement by \<open>sint\<close>; \<^verbatim>\<open>%s\<close> a string; an exit status printed with \<^verbatim>\<open>%d\<close>
  is kept symbolic.
\<close>

datatype arg = D "32 word" | S string | Status exit_code

datatype worker = do_rng_data_source_loop | do_rng_fips_test_loop | do_rng_data_sink_loop

datatype errno_t = EINTR | EWOULDBLOCK | EBADF | EINVAL | ENOLCK

datatype flock_result = Flock_ok | Flock_fail errno_t

datatype event =
    ALOGV string "arg list"
  | ALOGI string "arg list"
  | ALOGE string "arg list"
  | Set_stat_prefix string
  | Close_fd nat
  | Init_sighandlers
  | Init_entropy_source
  | Init_kernel_rng
  | Open_rdwr_creat string
  | Fdopen
  | Fcntl_setfd
  | Flock flock_result
  | Daemon "32 word"
  | Init_rng_buffers "32 word"
  | Pthread_create worker "32 word"
  | Sleep "32 word" "32 word"

subsection \<open>Statistics\<close>

text \<open>
  A pthread mutex, as one thread sees it: locking a free mutex takes it, locking a taken
  one does not return (\<open>None\<close>) for as long as it stays taken.
\<close>

datatype mutex = Unlocked | Locked

definition pthread_mutex_init :: mutex where
  "pthread_mutex_init = Unlocked"

definition pthread_mutex_lock :: "mutex \<Rightarrow> mutex option" where
  "pthread_mutex_lock m = (case m of Unlocked \<Rightarrow> Some Locked | Locked \<Rightarrow> None)"

definition pthread_mutex_unlock :: "mutex \<Rightarrow> mutex" where
  "pthread_mutex_unlock m = Unlocked"

text \<open>
  \<^verbatim>\<open>struct rng_stats\<close> is declared in \<^verbatim>\<open>stats.h\<close>, which is not among the sources.
  The record has the fields that the code of \<^verbatim>\<open>rngd.c\<close> reads or writes. The width
  \<open>'w\<close> of the counters is a parameter, and so are the fields that \<^verbatim>\<open>rngd.c\<close> never
  touches by name (\<^verbatim>\<open>fips_failures\<close>, \<^verbatim>\<open>sink_starved\<close>, the timing statistics):
  they live in the record's extension slot \<open>'z\<close>.
\<close>

record (overloaded) 'w rng_stats =
  group1_mutex :: mutex
  bytes_received :: "'w word"
  group2_mutex :: mutex
  bad_fips_blocks :: "'w word"
  good_fips_blocks :: "'w word"
  group3_mutex :: mutex
  bytes_sent :: "'w word"
  entropy_sent :: "'w word"
  buffer_lowmark :: "'w word"

text \<open>
  \<^verbatim>\<open>init_rng_stats(int n)\<close>: \<^verbatim>\<open>memset\<close> clears the whole structure, extension
  included, \<^verbatim>\<open>buffer_lowmark\<close> is assigned the \<^verbatim>\<open>int\<close> value \<open>n - 1\<close>, converted to
  the counter type (sign extension when the counter is wider), and the three mutexes
  are initialised. The call of \<^verbatim>\<open>set_stat_prefix\<close> is the event the function emits.
\<close>

definition init_rng_stats ::
  "32 word \<Rightarrow> event list \<times> ('w::len, 'z::zero) rng_stats_scheme" where
  "init_rng_stats n =
     ([Set_stat_prefix ''stats: ''],
      \<lparr> group1_mutex = pthread_mutex_init,
        bytes_received = 0,
        group2_mutex = pthread_mutex_init,
        bad_fips_blocks = 0,
        good_fips_blocks = 0,
        group3_mutex = pthread_mutex_init,
        bytes_sent = 0,
        entropy_sent = 0,
        buffer_lowmark = scast (n - 1),
        \<dots> = 0 \<rparr>)"

text \<open>Taking and releasing each group's mutex inside the statistics structure.\<close>

definition lock_group1 :: "('w, 'z) rng_stats_scheme \<Rightarrow> ('w, 'z) rng_stats_scheme option" where
  "lock_group1 s = map_option (\<lambda>m. s\<lparr>group1_mutex := m\<rparr>) (pthread_mutex_lock (group1_mutex s))"

definition lock_group2 :: "('w, 'z) rng_stats_scheme \<Rightarrow> ('w, 'z) rng_stats_scheme option" where
  "lock_group2 s = map_option (\<lambda>m. s\<lparr>group2_mutex := m\<rparr>) (pthread_mutex_lock (group2_mutex s))"

definition lock_group3 :: "('w, 'z) rng_stats_scheme \<Rightarrow> ('w, 'z) rng_stats_scheme option" where
  "lock_group3 s = map_option (\<lambda>m. s\<lparr>group3_mutex := m\<rparr>) (pthread_mutex_lock (group3_mutex s))"

definition unlock_group1 :: "('w, 'z) rng_stats_scheme \<Rightarrow> ('w, 'z) rng_stats_scheme" where
  "unlock_group1 s = s\<lparr>group1_mutex := pthread_mutex_unlock (group1_mutex s)\<rparr>"

definition unlock_group2 :: "('w, 'z) rng_stats_scheme \<Rightarrow> ('w, 'z) rng_stats_scheme" where
  "unlock_group2 s = s\<lparr>group2_mutex := pthread_mutex_unlock (group2_mutex s)\<rparr>"

definition unlock_group3 :: "('w, 'z) rng_stats_scheme \<Rightarrow> ('w, 'z) rng_stats_scheme" where
  "unlock_group3 s = s\<lparr>group3_mutex := pthread_mutex_unlock (group3_mutex s)\<rparr>"

text \<open>
  The value a \<^verbatim>\<open>%d\<close> conversion prints for a counter expression: the expression is
  computed in the counter type (no narrower than \<^verbatim>\<open>int\<close>, so there is no integer
  promotion, and overflow wraps) and \<^verbatim>\<open>%d\<close> reads its low 32 bits as an \<^verbatim>\<open>int\<close>.
\<close>

definition as_int :: "'w::len word \<Rightarrow> arg" where
  "as_int v = D (ucast v)"

text \<open>
  \<^verbatim>\<open>dump_rng_stats\<close>, statement by statement. The loop over \<^verbatim>\<open>N_FIPS_TESTS\<close> has an
  empty body (its statement is commented out), and so have the last three locked
  regions. The result is \<open>None\<close> when a mutex is never granted.
\<close>

definition dump_rng_stats ::
  "('w::len, 'z) rng_stats_scheme \<Rightarrow> (event list \<times> ('w, 'z) rng_stats_scheme) option" where
  "dump_rng_stats s0 = do {
     s1 \<leftarrow> lock_group1 s0;
     let l1 = [ALOGV ''%d bits received from HRNG source'' [as_int (bytes_received s1 * 8)]];
     let s2 = unlock_group1 s1;
     s3 \<leftarrow> lock_group3 s2;
     let l2 = [ALOGV ''%d bits send to kernel pool'' [as_int (bytes_sent s3 * 8)],
               ALOGV ''%d entropy added to kernel pool'' [as_int (entropy_sent s3)]];
     let s4 = unlock_group3 s3;
     s5 \<leftarrow> lock_group2 s4;
     let l3 = [ALOGV ''%d FIPS 140-2 successes'' [as_int (good_fips_blocks s5)],
               ALOGV ''%d FIPS 140-2 failures'' [as_int (bad_fips_blocks s5)]];
     let s6 = unlock_group2 s5;
     s7 \<leftarrow> lock_group1 s6;
     let s8 = unlock_group1 s7;
     s9 \<leftarrow> lock_group2 s8;
     let s10 = unlock_group2 s9;
     s11 \<leftarrow> lock_group3 s10;
     let s12 = unlock_group3 s11;
     Some (l1 @ l2 @ l3, s12)
   }"

text \<open>
  The three mutexes are free, and the five lines that a dump logs then.
\<close>

definition mutexes_free :: "('w, 'z) rng_stats_scheme \<Rightarrow> bool" where
  "mutexes_free s =
     (group1_mutex s = Unlocked \<and> group2_mutex s = Unlocked \<and> group3_mutex s = Unlocked)"

definition dump_lines :: "('w::len, 'z) rng_stats_scheme \<Rightarrow> event list" where
  "dump_lines s =
     [ALOGV ''%d bits received from HRNG source'' [as_int (bytes_received s * 8)],
      ALOGV ''%d bits send to kernel pool'' [as_int (bytes_sent s * 8)],
      ALOGV ''%d entropy added to kernel pool'' [as_int (entropy_sent s)],
      ALOGV ''%d FIPS 140-2 successes'' [as_int (good_fips_blocks s)],
      ALOGV ''%d FIPS 140-2 failures'' [as_int (bad_fips_blocks s)]]"

text \<open>
  Modelled from the spec: the code that updates \<^verbatim>\<open>buffer_lowmark\<close> is in
  \<^verbatim>\<open>rngd_threads.c\<close>, which is not among the sources. The data model says that
  \<^verbatim>\<open>buffer_lowmark\<close> is the "minimum observed count of ready (tested-good) buffers":
  observing \<open>k\<close> ready buffers lowers the mark to \<open>k\<close> when \<open>k\<close> is below it.
\<close>

definition note_ready :: "'w::len word \<Rightarrow> ('w, 'z) rng_stats_scheme \<Rightarrow> ('w, 'z) rng_stats_scheme" where
  "note_ready k s = (if k < buffer_lowmark s then s\<lparr>buffer_lowmark := k\<rparr> else s)"

text \<open>
  A history of the statistics structure after \<^verbatim>\<open>init_rng_stats\<close>: observations of the
  ready-buffer count by the pipeline and calls of \<^verbatim>\<open>dump_rng_stats\<close>, in any order.
\<close>

datatype 'k stats_op = Note_ready 'k | Dump_stats

fun run_stats_ops ::
  "'w::len word stats_op list \<Rightarrow> ('w, 'z) rng_stats_scheme \<Rightarrow> ('w, 'z) rng_stats_scheme option" where
  "run_stats_ops [] s = Some s"
| "run_stats_ops (Note_ready k # ops) s = run_stats_ops ops (note_ready k s)"
| "run_stats_ops (Dump_stats # ops) s =
     (case dump_rng_stats s of None \<Rightarrow> None | Some (out, s') \<Rightarrow> run_stats_ops ops s')"

fun observed :: "'k stats_op list \<Rightarrow> 'k list" where
  "observed [] = []"
| "observed (Note_ready k # ops) = k # observed ops"
| "observed (Dump_stats # ops) = observed ops"

text \<open>A statistics structure whose byte counter has reached \<open>2 ^ 28\<close>.\<close>

definition sample_stats :: "(32, nat) rng_stats_scheme" where
  "sample_stats = (snd (init_rng_stats 3))\<lparr>bytes_received := 2 ^ 28, bytes_sent := 5\<rparr>"

subsection \<open>The pidfile stream\<close>

text \<open>
  The lockfile is opened read-write and wrapped in a stdio stream (\<^verbatim>\<open>"r+"\<close>). The
  model keeps the bytes of the file and the stream position together; \<^verbatim>\<open>fflush\<close>
  is then the identity. The return values of these calls are ignored by \<^verbatim>\<open>get_lock\<close>,
  and the model is their successful behaviour.
\<close>

record stream =
  file_bytes :: string
  file_pos :: nat

definition rewind :: "stream \<Rightarrow> stream" where
  "rewind fp = fp\<lparr>file_pos := 0\<rparr>"

definition fputs_at :: "string \<Rightarrow> stream \<Rightarrow> stream" where
  "fputs_at str fp =
     fp\<lparr>file_bytes := take (file_pos fp) (file_bytes fp)
                        @ replicate (file_pos fp - length (file_bytes fp)) (CHR 0x00)
                        @ str
                        @ drop (file_pos fp + length str) (file_bytes fp),
        file_pos := file_pos fp + length str\<rparr>"

definition fflush :: "stream \<Rightarrow> stream" where
  "fflush fp = fp"

definition ftell :: "stream \<Rightarrow> nat" where
  "ftell fp = file_pos fp"

definition ftruncate :: "nat \<Rightarrow> stream \<Rightarrow> stream" where
  "ftruncate len fp =
     fp\<lparr>file_bytes := take len (file_bytes fp) @ replicate (len - length (file_bytes fp)) (CHR 0x00)\<rparr>"

text \<open>The conversion \<^verbatim>\<open>%ld\<close> of \<^verbatim>\<open>fprintf\<close>: a decimal numeral, with a sign when negative.\<close>

definition digit_char :: "nat \<Rightarrow> char" where
  "digit_char d = char_of (48 + d)"

fun dec :: "nat \<Rightarrow> string" where
  "dec n = (if n < 10 then [digit_char n] else dec (n div 10) @ [digit_char (n mod 10)])"

declare dec.simps [simp del]

definition fmt_ld :: "int \<Rightarrow> string" where
  "fmt_ld i = (if i < 0 then CHR ''-'' # dec (nat (- i)) else dec (nat i))"

text \<open>
  The conversion \<^verbatim>\<open>%d\<close> of \<^verbatim>\<open>fscanf\<close>. White space is skipped, then the input item
  is read: an optional sign and the decimal digits that follow. These characters are
  consumed whether the conversion succeeds or not. Without a digit nothing is converted
  (\<open>None\<close>: a matching failure, or the end of the file). Otherwise the digits are
  converted as by \<^verbatim>\<open>strtoimax\<close>: a numeral beyond the range of a 64-bit integer
  converts to the nearest bound of that range. \<open>scan_int\<close> gives the converted value
  and the number of characters consumed; storing the value in an \<^verbatim>\<open>int\<close> keeps its low
  32 bits.
\<close>

definition isspace :: "char \<Rightarrow> bool" where
  "isspace c = (c \<in> set [CHR 0x20, CHR 0x09, CHR 0x0A, CHR 0x0B, CHR 0x0C, CHR 0x0D])"

definition isdigit :: "char \<Rightarrow> bool" where
  "isdigit c = ((48::nat) \<le> of_char c \<and> of_char c \<le> (57::nat))"

definition digit_val :: "char \<Rightarrow> nat" where
  "digit_val c = of_char c - 48"

fun scan_digits :: "nat \<Rightarrow> string \<Rightarrow> nat" where
  "scan_digits acc [] = acc"
| "scan_digits acc (c # cs) = (if isdigit c then scan_digits (acc * 10 + digit_val c) cs else acc)"


definition INTMAX_MAX :: int where
  "INTMAX_MAX = 2 ^ 63 - 1"

definition INTMAX_MIN :: int where
  "INTMAX_MIN = - (2 ^ 63)"

definition saturate :: "int \<Rightarrow> int" where
  "saturate v = (if v < INTMAX_MIN then INTMAX_MIN else if INTMAX_MAX < v then INTMAX_MAX else v)"

definition scan_int :: "string \<Rightarrow> int option \<times> nat" where
  "scan_int cs =
     (let ws = takeWhile isspace cs;
          r = dropWhile isspace cs;
          sign = (case r of [] \<Rightarrow> []
                  | c # _ \<Rightarrow> if c = CHR ''-'' \<or> c = CHR ''+'' then [c] else []);
          ds = takeWhile isdigit (drop (length sign) r);
          consumed = length ws + length sign + length ds
      in if ds = [] then (None, consumed)
         else (Some (saturate (if sign = ''-'' then - int (scan_digits 0 ds)
                               else int (scan_digits 0 ds))),
               consumed))"

definition fscanf_d :: "stream \<Rightarrow> int option \<times> stream" where
  "fscanf_d fp =
     (case scan_int (drop (file_pos fp) (file_bytes fp)) of
        (res, consumed) \<Rightarrow> (res, fp\<lparr>file_pos := file_pos fp + consumed\<rparr>))"

text \<open>
  The value of an \<^verbatim>\<open>int\<close> variable that was 0 before \<^verbatim>\<open>fscanf\<close> was given its
  address.
\<close>

definition stored_int :: "int option \<Rightarrow> 32 word" where
  "stored_int res = (case res of None \<Rightarrow> 0 | Some v \<Rightarrow> word_of_int v)"

subsection \<open>Process state and outcomes\<close>

text \<open>
  Modelled from the spec: \<^verbatim>\<open>kernel_mode_t\<close> is declared in \<^verbatim>\<open>rngd_linux.h\<close>, which is
  not among the sources; \<^verbatim>\<open>rngd.c\<close> only compares with \<^verbatim>\<open>KERNEL_UNSUPPORTED\<close>, the
  "unsupported host" of the interface section. The other values stand for the supported
  kernels.
\<close>

datatype kernel_mode_t = KERNEL_UNSUPPORTED | KERNEL_LINUX_24 | KERNEL_LINUX_26

text \<open>
  The globals of \<^verbatim>\<open>rngd.c\<close>, the two flags of \<^verbatim>\<open>rngd_signals.h\<close> that \<^verbatim>\<open>main\<close> reads,
  and the events emitted so far. \<^verbatim>\<open>daemon_lockfd\<close> and \<^verbatim>\<open>daemon_lockfp\<close> name the same
  open file, kept once as \<open>daemon_lockfp\<close> (\<open>None\<close> is \<^verbatim>\<open>NULL\<close>).
\<close>

record (overloaded) ('w, 'z) rngd =
  rng_stats :: "('w, 'z) rng_stats_scheme"
  masterprocess :: "32 word"
  am_daemon :: bool
  exitstatus :: exit_code
  daemon_lockfp :: "stream option"
  kernel :: kernel_mode_t
  gotsigterm :: bool
  gotsigusr1 :: bool
  events :: "event list"

text \<open>
  The fields of \<^verbatim>\<open>struct arguments\<close> that \<^verbatim>\<open>rngd.c\<close> reads, and their defaults.
  \<^verbatim>\<open>main\<close> parses no command line: \<^verbatim>\<open>arguments\<close> points to the defaults unless
  another file changes it.
\<close>

record arguments =
  pidfile_name :: string
  daemon :: bool
  rng_buffers :: "32 word"

definition PIDFILE :: string where
  "PIDFILE = ''/data/rngd.pid''"

definition default_arguments :: arguments where
  "default_arguments = \<lparr> pidfile_name = PIDFILE, daemon = True, rng_buffers = 3 \<rparr>"

definition RNGD_STAT_SLEEP_TIME :: "32 word" where
  "RNGD_STAT_SLEEP_TIME = 3600"

text \<open>
  A function of the program returns, ends the process with an exit status, or does not
  come back within what the environment describes (a mutex that is never granted, an
  \<^verbatim>\<open>flock\<close> that is interrupted every time, a sleep that outlasts the schedule).
\<close>

datatype 's outcome = Returns 's | Exits exit_code 's | Blocks 's

definition and_then :: "'s outcome \<Rightarrow> ('s \<Rightarrow> 's outcome) \<Rightarrow> 's outcome" where
  "and_then r f = (case r of Returns s \<Rightarrow> f s | Exits c s \<Rightarrow> Exits c s | Blocks s \<Rightarrow> Blocks s)"

fun final_state :: "'s outcome \<Rightarrow> 's" where
  "final_state (Returns s) = s"
| "final_state (Exits c s) = s"
| "final_state (Blocks s) = s"

fun exit_status :: "'s outcome \<Rightarrow> exit_code option" where
  "exit_status (Returns s) = None"
| "exit_status (Exits c s) = Some c"
| "exit_status (Blocks s) = None"

definition emit :: "event list \<Rightarrow> ('w, 'z) rngd \<Rightarrow> ('w, 'z) rngd" where
  "emit es s = s\<lparr>events := events s @ es\<rparr>"

definition die :: "exit_code \<Rightarrow> ('w, 'z) rngd \<Rightarrow> ('w, 'z) rngd outcome" where
  "die status s =
     Exits status
       (if am_daemon s then emit [ALOGE ''Exiting with status %d...'' [Status status]] s else s)"

subsection \<open>The daemon lock\<close>

text \<open>
  What the operating system answers to \<^verbatim>\<open>get_lock\<close>: the result of \<^verbatim>\<open>open\<close> with
  \<^verbatim>\<open>O_RDWR|O_CREAT\<close> (\<open>None\<close> is \<open>-1\<close>, otherwise the bytes of the file, empty when
  it was just created), whether \<^verbatim>\<open>fdopen\<close> gives a stream, the results of the
  successive calls of \<^verbatim>\<open>flock\<close>, and the process id.
\<close>

record lock_env =
  open_res :: "string option"
  fdopen_ok :: bool
  flock_res :: "flock_result list"
  getpid_res :: "32 word"

text \<open>
  The \<^verbatim>\<open>do ... while (r && (errno == EINTR))\<close> loop: the calls made and the result that
  ends the loop, \<open>None\<close> when every call described by the environment was interrupted.
\<close>

fun flock_loop :: "flock_result list \<Rightarrow> flock_result list \<times> flock_result option" where
  "flock_loop [] = ([], None)"
| "flock_loop (r # rs) =
     (if r = Flock_fail EINTR
      then (case flock_loop rs of (calls, res) \<Rightarrow> (r # calls, res))
      else ([r], Some r))"

text \<open>Lines 187 to 190: the pid replaces the content of the pidfile.\<close>

definition write_pid :: "32 word \<Rightarrow> stream \<Rightarrow> stream" where
  "write_pid pid fp0 =
     (let fp1 = rewind fp0;
          fp2 = fputs_at (fmt_ld (sint pid) @ [CHR 0x0A]) fp1;
          fp3 = fflush fp2
      in ftruncate (ftell fp3) fp3)"

text \<open>
  \<^verbatim>\<open>get_lock\<close>. The \<^verbatim>\<open>assert\<close> holds of every string. When \<^verbatim>\<open>fdopen\<close> fails
  \<^verbatim>\<open>daemon_lockfp\<close> is assigned \<^verbatim>\<open>NULL\<close>. On \<^verbatim>\<open>EWOULDBLOCK\<close> the stream is rewound
  and \<^verbatim>\<open>otherpid\<close>, initially 0, receives what \<^verbatim>\<open>fscanf\<close> converts, as an \<^verbatim>\<open>int\<close>.
\<close>

definition get_lock :: "lock_env \<Rightarrow> string \<Rightarrow> ('w, 'z) rngd \<Rightarrow> ('w, 'z) rngd outcome" where
  "get_lock env name s =
     and_then
       (case daemon_lockfp s of
          Some fp \<Rightarrow> Returns s
        | None \<Rightarrow>
            (case open_res env of
               None \<Rightarrow>
                 die EXIT_USAGE
                   (emit [Open_rdwr_creat name, ALOGE ''can't open or create %s'' [S name]] s)
             | Some bytes \<Rightarrow>
                 if \<not> fdopen_ok env then
                   die EXIT_USAGE
                     (emit [Open_rdwr_creat name, Fdopen, ALOGE ''can't open or create %s'' [S name]] s)
                 else
                   (let fp = \<lparr> file_bytes = bytes, file_pos = 0 \<rparr>;
                        s1 = (emit [Open_rdwr_creat name, Fdopen, Fcntl_setfd] s)
                               \<lparr>daemon_lockfp := Some fp\<rparr>
                    in case flock_loop (flock_res env) of
                         (calls, None) \<Rightarrow> Blocks (emit (map Flock calls) s1)
                       | (calls, Some Flock_ok) \<Rightarrow> Returns (emit (map Flock calls) s1)
                       | (calls, Some (Flock_fail e)) \<Rightarrow>
                           (let s2 = emit (map Flock calls) s1 in
                            if e = EWOULDBLOCK then
                              (case fscanf_d (rewind fp) of
                                 (res, fp') \<Rightarrow>
                                   (let otherpid = stored_int res
                                    in die EXIT_USAGE
                                         (emit [ALOGE ''can't lock %s, running daemon's pid may be %d''
                                                  [S name, D otherpid]]
                                            (s2\<lparr>daemon_lockfp := Some fp'\<rparr>))))
                            else
                              die EXIT_USAGE (emit [ALOGE ''can't lock %s'' [S name]] s2)))))
       (\<lambda>s. case daemon_lockfp s of
               None \<Rightarrow> Returns s
             | Some fp \<Rightarrow> Returns (s\<lparr>daemon_lockfp := Some (write_pid (getpid_res env) fp)\<rparr>))"

text \<open>
  The two ways the first call can end when every interrupted \<^verbatim>\<open>flock\<close> is followed
  by another answer: the lock is refused (the path cannot be opened, or \<^verbatim>\<open>flock\<close>
  fails for good), or it is taken.
\<close>

definition flock_outcome :: "lock_env \<Rightarrow> flock_result option" where
  "flock_outcome env = snd (flock_loop (flock_res env))"

definition lock_fails :: "lock_env \<Rightarrow> bool" where
  "lock_fails env =
     (open_res env = None \<or> \<not> fdopen_ok env \<or>
      (case flock_outcome env of Some (Flock_fail e) \<Rightarrow> True | _ \<Rightarrow> False))"

definition lock_acquired :: "lock_env \<Rightarrow> bool" where
  "lock_acquired env =
     (open_res env \<noteq> None \<and> fdopen_ok env \<and> flock_outcome env = Some Flock_ok)"

subsection \<open>The main thread\<close>

text \<open>
  Modelled from the spec: the signal handlers (\<^verbatim>\<open>rngd_signals.c\<close>) and the worker
  loops (\<^verbatim>\<open>rngd_threads.c\<close>, \<^verbatim>\<open>rngd_entsource.c\<close>, \<^verbatim>\<open>rngd_linux.c\<close>) are not among the
  sources. The termination flag and the dump-stats flag are "edge-triggered booleans
  set by an external signal-handling collaborator". An unrecoverable device error and a
  persistent failure of the kernel sink each end the process "with an
  operating-system-error exit status", and a termination request "sets a process-wide
  flag observed by the main loop": the worker stores the operating-system error code in
  \<^verbatim>\<open>exitstatus\<close> (declared in \<^verbatim>\<open>rngd.c\<close> as the "exit status on SIGTERM") and requests
  termination.

  What reaches the main thread from outside while it waits is then one of: the two
  signals it has flags for, any other signal, and a worker thread that gives up.
\<close>

datatype fatal_condition = Device_failure | Kernel_sink_failure

datatype async = SIGTERM | SIGUSR1 | Other_signal | Worker_fatal fatal_condition

fun deliver :: "async \<Rightarrow> ('w, 'z) rngd \<Rightarrow> ('w, 'z) rngd" where
  "deliver SIGTERM s = s\<lparr>gotsigterm := True\<rparr>"
| "deliver SIGUSR1 s = s\<lparr>gotsigusr1 := True\<rparr>"
| "deliver Other_signal s = s"
| "deliver (Worker_fatal c) s = s\<lparr>exitstatus := EXIT_OSERR, gotsigterm := True\<rparr>"

text \<open>Which arrivals set the termination flag, and which are a worker giving up.\<close>

fun requests_termination :: "async \<Rightarrow> bool" where
  "requests_termination SIGTERM = True"
| "requests_termination (Worker_fatal c) = True"
| "requests_termination a = False"

fun is_worker_fatal :: "async \<Rightarrow> bool" where
  "is_worker_fatal (Worker_fatal c) = True"
| "is_worker_fatal a = False"

text \<open>
  One pass of the \<^verbatim>\<open>while\<close> loop as the environment drives it: what arrives before
  the loop condition is evaluated, what \<^verbatim>\<open>sleep\<close> returns (the seconds left, 0 when
  the time is up), and what arrives while the thread sleeps.
\<close>

record wake =
  before_check :: "async list"
  sleep_res :: "32 word"
  while_asleep :: "async list"

text \<open>
  The environment of \<^verbatim>\<open>main\<close>: the result of \<^verbatim>\<open>kernel_mode\<close>, the answers to the first
  \<^verbatim>\<open>get_lock\<close>, the result of \<^verbatim>\<open>daemon\<close> and the process id afterwards, the results
  of the three calls of \<^verbatim>\<open>pthread_create\<close>, and the schedule of the wait loop.
  \<^verbatim>\<open>init_sighandlers\<close>, \<^verbatim>\<open>init_entropy_source\<close>, \<^verbatim>\<open>init_kernel_rng\<close> and
  \<^verbatim>\<open>init_rng_buffers\<close> are in other files: each call is an event, and returns.
\<close>

record env =
  kernel_mode_res :: kernel_mode_t
  lock :: lock_env
  daemon_res :: "32 word"
  daemon_pid :: "32 word"
  pthread_create_res :: "32 word \<times> 32 word \<times> 32 word"
  schedule :: "wake list"

text \<open>Lines 265 to 271.\<close>

definition main_check_kernel :: "env \<Rightarrow> ('w, 'z) rngd \<Rightarrow> ('w, 'z) rngd outcome" where
  "main_check_kernel e s0 =
     (let s1 = s0\<lparr>kernel := kernel_mode_res e\<rparr> in
      if kernel s1 = KERNEL_UNSUPPORTED
      then die EXIT_OSERR (emit [ALOGE ''Unsupported kernel detected, exiting...'' []] s1)
      else Returns s1)"

text \<open>Lines 273 to 286.\<close>

definition main_init :: "arguments \<Rightarrow> ('w::len, 'z::zero) rngd \<Rightarrow> ('w, 'z) rngd outcome" where
  "main_init args s =
     (let s1 = emit (map Close_fd [3..<250]) s in
      case init_rng_stats (rng_buffers args) of
        (es, st) \<Rightarrow>
          Returns (emit [Init_sighandlers, Init_entropy_source, Init_kernel_rng]
                     ((emit es s1)\<lparr>rng_stats := st\<rparr>)))"

text \<open>Lines 288 to 302. Returning from \<^verbatim>\<open>main\<close> ends the process with the value returned.\<close>

definition main_daemonize :: "arguments \<Rightarrow> env \<Rightarrow> ('w, 'z) rngd \<Rightarrow> ('w, 'z) rngd outcome" where
  "main_daemonize args e s =
     (if daemon args then
        and_then (get_lock (lock e) (pidfile_name args) s)
          (\<lambda>s1. let s2 = emit [Daemon (daemon_res e)] s1 in
                 if daemon_res e <s 0
                 then Exits EXIT_OSERR (emit [ALOGE ''can't daemonize'' []] s2)
                 else get_lock ((lock e)\<lparr>getpid_res := daemon_pid e\<rparr>) (pidfile_name args)
                        (s2\<lparr>am_daemon := True\<rparr>))
      else Returns s)"

text \<open>
  Lines 304 to 317. The three results are joined by the bitwise \<^verbatim>\<open>|\<close>, so all three
  calls are made; they are taken in the order written.
\<close>

definition main_start_threads :: "arguments \<Rightarrow> env \<Rightarrow> ('w, 'z) rngd \<Rightarrow> ('w, 'z) rngd outcome" where
  "main_start_threads args e s =
     (let pid = (if daemon args then daemon_pid e else getpid_res (lock e));
          s1 = emit [ALOGI ''rngd 2.14 starting up...'' []] (s\<lparr>masterprocess := pid\<rparr>);
          s2 = emit [Init_rng_buffers (rng_buffers args), Init_sighandlers] s1
      in case pthread_create_res e of
           (r1, r2, r3) \<Rightarrow>
             (let s3 = emit [Pthread_create do_rng_data_source_loop r1,
                             Pthread_create do_rng_fips_test_loop r2,
                             Pthread_create do_rng_data_sink_loop r3] s2
              in if r1 OR r2 OR r3 \<noteq> 0
                 then die EXIT_OSERR (emit [ALOGE ''Insufficient resources to start threads'' []] s3)
                 else Returns s3))"

text \<open>
  Lines 324 to 331, with \<^verbatim>\<open>sleeptime\<close> as an argument. When the schedule is used up
  and the termination flag is not set, the thread is asleep.
\<close>

fun main_loop :: "wake list \<Rightarrow> 32 word \<Rightarrow> ('w::len, 'z) rngd \<Rightarrow> ('w, 'z) rngd outcome" where
  "main_loop [] sleeptime s = (if gotsigterm s then Returns s else Blocks s)"
| "main_loop (w # ws) sleeptime s =
     (let s1 = fold deliver (before_check w) s in
      if gotsigterm s1 then Returns s1
      else
        (let s2 = fold deliver (while_asleep w) (emit [Sleep sleeptime (sleep_res w)] s1);
             sleeptime' = sleep_res w
         in if sleeptime' = 0 \<or> gotsigusr1 s2 \<or> gotsigterm s2 then
              (case dump_rng_stats (rng_stats s2) of
                 None \<Rightarrow> Blocks s2
               | Some (out, st) \<Rightarrow>
                   main_loop ws RNGD_STAT_SLEEP_TIME
                     ((emit out s2)\<lparr>rng_stats := st, gotsigusr1 := False\<rparr>))
            else main_loop ws sleeptime' s2))"

text \<open>
  The state when a sleep has ended, and a pass of the loop in which nothing requests
  termination.
\<close>

definition after_sleep :: "wake \<Rightarrow> 32 word \<Rightarrow> ('w, 'z) rngd \<Rightarrow> ('w, 'z) rngd" where
  "after_sleep w sleeptime s =
     fold deliver (while_asleep w)
       (emit [Sleep sleeptime (sleep_res w)] (fold deliver (before_check w) s))"

definition quiet :: "wake \<Rightarrow> bool" where
  "quiet w =
     (\<not> list_ex requests_termination (before_check w) \<and>
      \<not> list_ex requests_termination (while_asleep w))"

text \<open>Lines 333 to 338.\<close>

definition main_exit :: "('w, 'z) rngd \<Rightarrow> ('w, 'z) rngd outcome" where
  "main_exit s =
     Exits (exitstatus s)
       (emit [if exitstatus s = EXIT_SUCCESS
              then ALOGI ''Exiting...'' []
              else ALOGE ''Exiting with status %d'' [Status (exitstatus s)]] s)"

text \<open>
  \<^verbatim>\<open>main\<close> in order: lines 265 to 302, then the start of the threads, then the wait
  loop entered with the full sleep time, then the exit.
\<close>

definition main_startup :: "arguments \<Rightarrow> env \<Rightarrow> ('w::len, 'z::zero) rngd \<Rightarrow> ('w, 'z) rngd outcome" where
  "main_startup args e s0 =
     and_then (main_check_kernel e s0) (\<lambda>s1.
     and_then (main_init args s1) (main_daemonize args e))"

definition main_prologue :: "arguments \<Rightarrow> env \<Rightarrow> ('w::len, 'z::zero) rngd \<Rightarrow> ('w, 'z) rngd outcome" where
  "main_prologue args e s0 = and_then (main_startup args e s0) (main_start_threads args e)"

definition main :: "arguments \<Rightarrow> env \<Rightarrow> ('w::len, 'z::zero) rngd \<Rightarrow> ('w, 'z) rngd outcome" where
  "main args e s0 =
     and_then (main_prologue args e s0) (\<lambda>s4.
     and_then (main_loop (schedule e) RNGD_STAT_SLEEP_TIME s4) main_exit)"

text \<open>
  The globals when \<^verbatim>\<open>main\<close> starts: static storage is zero, \<^verbatim>\<open>exitstatus\<close> is
  \<^verbatim>\<open>EXIT_SUCCESS\<close>, \<^verbatim>\<open>daemon_lockfp\<close> is \<^verbatim>\<open>NULL\<close>.
\<close>

definition initial_state :: "('w::len, 'z::zero) rngd" where
  "initial_state =
     \<lparr> rng_stats = \<lparr> group1_mutex = Unlocked, bytes_received = 0, group2_mutex = Unlocked,
                     bad_fips_blocks = 0, good_fips_blocks = 0, group3_mutex = Unlocked,
                     bytes_sent = 0, entropy_sent = 0, buffer_lowmark = 0, \<dots> = 0 \<rparr>,
       masterprocess = 0,
       am_daemon = False,
       exitstatus = EXIT_SUCCESS,
       daemon_lockfp = None,
       kernel = KERNEL_UNSUPPORTED,
       gotsigterm = False,
       gotsigusr1 = False,
       events = [] \<rparr>"

text \<open>
  Sample answers of the outside world: a pidfile that holds 4321 and is locked by
  another process, and a start of the daemon in which the first \<^verbatim>\<open>flock\<close> is
  interrupted, the timer expires once and a termination signal arrives during the
  second sleep.
\<close>

definition sample_lock_env :: lock_env where
  "sample_lock_env =
     \<lparr> open_res = Some (''4321'' @ [CHR 0x0A]), fdopen_ok = True,
       flock_res = [Flock_fail EINTR, Flock_fail EWOULDBLOCK], getpid_res = 100 \<rparr>"

definition sample_env :: env where
  "sample_env =
     \<lparr> kernel_mode_res = KERNEL_LINUX_26,
       lock = sample_lock_env\<lparr>flock_res := [Flock_fail EINTR, Flock_ok]\<rparr>,
       daemon_res = 0,
       daemon_pid = 101,
       pthread_create_res = (0, 0, 0),
       schedule = [\<lparr> before_check = [], sleep_res = 0, while_asleep = [] \<rparr>,
                   \<lparr> before_check = [], sleep_res = 17, while_asleep = [SIGTERM] \<rparr>] \<rparr>"

text \<open>The lines of a statistics dump among the events.\<close>

fun is_stats_line :: "event \<Rightarrow> bool" where
  "is_stats_line (ALOGV f a) = True"
| "is_stats_line e = False"

fun is_pthread_create :: "event \<Rightarrow> bool" where
  "is_pthread_create (Pthread_create w r) = True"
| "is_pthread_create e = False"

fun is_sleep :: "event \<Rightarrow> bool" where
  "is_sleep (Sleep a b) = True"
| "is_sleep e = False"


section \<open>Properties\<close>

subsection \<open>The statistics dump\<close>

lemma lock_group1_eq:
  "lock_group1 s = (if group1_mutex s = Unlocked then Some (s\<lparr>group1_mutex := Locked\<rparr>) else None)"
  by (cases "group1_mutex s") (simp_all add: lock_group1_def pthread_mutex_lock_def)

lemma lock_group2_eq:
  "lock_group2 s = (if group2_mutex s = Unlocked then Some (s\<lparr>group2_mutex := Locked\<rparr>) else None)"
  by (cases "group2_mutex s") (simp_all add: lock_group2_def pthread_mutex_lock_def)

lemma lock_group3_eq:
  "lock_group3 s = (if group3_mutex s = Unlocked then Some (s\<lparr>group3_mutex := Locked\<rparr>) else None)"
  by (cases "group3_mutex s") (simp_all add: lock_group3_def pthread_mutex_lock_def)

lemma dump_rng_stats_free:
  assumes "mutexes_free s"
  shows "dump_rng_stats s = Some (dump_lines s, s)"
proof -
  from assms have g: "group1_mutex s = Unlocked" "group2_mutex s = Unlocked" "group3_mutex s = Unlocked"
    by (simp_all add: mutexes_free_def)
  have same: "s\<lparr>group1_mutex := Unlocked, group3_mutex := Unlocked, group2_mutex := Unlocked\<rparr> = s"
    using g by (cases s) simp
  show ?thesis
    unfolding dump_rng_stats_def
    by (simp add: lock_group1_eq lock_group2_eq lock_group3_eq unlock_group1_def unlock_group2_def
        unlock_group3_def pthread_mutex_unlock_def g dump_lines_def same)
qed

lemma dump_rng_stats_taken:
  assumes "\<not> mutexes_free s"
  shows "dump_rng_stats s = None"
proof (cases "group1_mutex s = Unlocked")
  case False
  then show ?thesis
    unfolding dump_rng_stats_def by (simp add: lock_group1_eq)
next
  case g1: True
  show ?thesis
  proof (cases "group3_mutex s = Unlocked")
    case False
    then show ?thesis
      unfolding dump_rng_stats_def
      by (simp add: lock_group1_eq lock_group3_eq unlock_group1_def g1)
  next
    case g3: True
    with g1 assms have "group2_mutex s \<noteq> Unlocked"
      by (simp add: mutexes_free_def)
    then show ?thesis
      unfolding dump_rng_stats_def
      by (simp add: lock_group1_eq lock_group2_eq lock_group3_eq unlock_group1_def
          unlock_group3_def g1 g3)
  qed
qed

lemma dump_rng_stats_eq:
  "dump_rng_stats s = (if mutexes_free s then Some (dump_lines s, s) else None)"
  by (simp add: dump_rng_stats_free dump_rng_stats_taken)


subsection \<open>Word arithmetic of the logged values\<close>

lemma word32_of_int_mod:
  assumes "32 \<le> n"
  shows "(word_of_int (k mod 2 ^ n) :: 32 word) = word_of_int k"
proof -
  have "(2::int) ^ 32 dvd 2 ^ n"
    using assms by (rule le_imp_power_dvd)
  then have "(k mod 2 ^ n) mod 2 ^ 32 = k mod 2 ^ 32"
    by (rule mod_mod_cancel)
  then have "take_bit LENGTH(32) (k mod 2 ^ n) = take_bit LENGTH(32) k"
    by (simp add: take_bit_eq_mod)
  then show ?thesis
    by (simp only: word_of_int_eq_iff)
qed

lemma ucast_times8:
  fixes b :: "'w::len word"
  assumes "32 \<le> LENGTH('w)"
  shows "(ucast (b * 8) :: 32 word) = word_of_int (uint b * 8)"
proof -
  have "(ucast (b * 8) :: 32 word) = word_of_int (uint (b * 8))"
    by (rule ucast_eq)
  also have "uint (b * 8) = (uint b * uint (8 :: 'w word)) mod 2 ^ LENGTH('w)"
    by (rule uint_word_ariths)
  also have "uint (8 :: 'w word) = 8"
  proof -
    have "(8::int) < 2 ^ 32" by simp
    also have "(2::int) ^ 32 \<le> 2 ^ LENGTH('w)"
      using assms by (intro power_increasing) simp_all
    finally have "(8::int) mod 2 ^ LENGTH('w) = 8" by simp
    then show ?thesis
      by (simp only: uint_word_of_int flip: word_of_int_numeral) 
  qed
  also have "(word_of_int ((uint b * 8) mod 2 ^ LENGTH('w)) :: 32 word) = word_of_int (uint b * 8)"
    using assms by (rule word32_of_int_mod)
  finally show ?thesis .
qed


lemma signed_take_bit_31_self:
  assumes "- (2 ^ 31) \<le> (k::int)" "k < 2 ^ 31"
  shows "signed_take_bit (31::nat) k = k"
  using assms by (simp add: signed_take_bit_int_eq_self)

lemma sint_word_of_int_32: "sint (word_of_int k :: 32 word) = signed_take_bit (31::nat) k"
  by (simp only: sint_sbintrunc') simp

lemma sint_times8_exact:
  assumes "0 \<le> k"
  shows "sint (word_of_int (k * 8) :: 32 word) = k * 8 \<longleftrightarrow> k < 2 ^ 28"
proof
  assume "sint (word_of_int (k * 8) :: 32 word) = k * 8"
  moreover have "sint (word_of_int (k * 8) :: 32 word) < 2 ^ 31"
    using sint_lt [of "word_of_int (k * 8) :: 32 word"] by simp
  ultimately have "k * 8 < 2 ^ 31" by (simp only:)
  then show "k < 2 ^ 28" by simp
next
  assume "k < 2 ^ 28"
  with assms have "- (2 ^ 31) \<le> k * 8" "k * 8 < 2 ^ 31" by simp_all
  then have "signed_take_bit (31::nat) (k * 8) = k * 8" by (rule signed_take_bit_31_self)
  then show "sint (word_of_int (k * 8) :: 32 word) = k * 8"
    by (simp only: sint_word_of_int_32)
qed

lemma sint_pred:
  fixes n :: "32 word"
  assumes "0 <s n"
  shows "sint (n - 1) = sint n - 1"
proof -
  have pos: "0 < sint n" using assms by (simp add: word_sless_alt)
  have lt: "sint n < 2 ^ 31" using sint_lt [of n] by simp
  have "n - 1 = word_of_int (sint n - 1)" by simp
  then have "sint (n - 1) = signed_take_bit (31::nat) (sint n - 1)"
    by (simp only: sint_sbintrunc') simp
  also have "\<dots> = sint n - 1"
    by (rule signed_take_bit_int_eq_self) (use pos lt in simp_all)
  finally show ?thesis .
qed

subsection \<open>The low-water mark\<close>

lemma init_mutexes_free: "mutexes_free (snd (init_rng_stats n))"
  by (simp add: init_rng_stats_def mutexes_free_def pthread_mutex_init_def)

lemma note_ready_mutexes: "mutexes_free (note_ready k s) = mutexes_free s"
  by (simp add: note_ready_def mutexes_free_def)

lemma note_ready_lowmark: "buffer_lowmark (note_ready k s) = min k (buffer_lowmark s)"
  by (auto simp: note_ready_def min_def)

lemma run_stats_ops_lowmark:
  "mutexes_free s \<Longrightarrow>
   \<exists>s'. run_stats_ops ops s = Some s' \<and> mutexes_free s' \<and>
        buffer_lowmark s' = fold min (observed ops) (buffer_lowmark s)"
proof (induction ops arbitrary: s)
  case Nil
  then show ?case by simp
next
  case (Cons op ops)
  show ?case
  proof (cases op)
    case (Note_ready k)
    with Cons.IH [of "note_ready k s"] Cons.prems show ?thesis
      by (simp add: note_ready_lowmark note_ready_mutexes)
  next
    case Dump_stats
    with Cons.IH [of s] Cons.prems show ?thesis
      by (simp add: dump_rng_stats_free)
  qed
qed

lemma fold_min_le: "fold min ks (x::'a::linorder) \<le> x"
proof (induction ks arbitrary: x)
  case Nil
  show ?case by simp
next
  case (Cons k ks)
  have "fold min ks (min k x) \<le> min k x" by (rule Cons.IH)
  also have "min k x \<le> x" by simp
  finally show ?case by simp
qed

lemma fold_note_ready_lowmark:
  "buffer_lowmark (fold note_ready ks s) = fold min ks (buffer_lowmark s)"
  by (induction ks arbitrary: s) (simp_all add: note_ready_lowmark)


lemma uint_scast_nonneg:
  fixes m :: "32 word"
  assumes "0 \<le> sint m" "32 \<le> LENGTH('w::len)"
  shows "uint (scast m :: 'w word) = sint m"
proof -
  have "sint m < 2 ^ 31" using sint_lt [of m] by simp
  also have "(2::int) ^ 31 \<le> 2 ^ LENGTH('w)"
    using assms(2) by (intro power_increasing) simp_all
  finally have lt: "sint m < 2 ^ LENGTH('w)" .
  have "(scast m :: 'w word) = word_of_int (sint m)"
    by (rule scast_eq)
  then have "uint (scast m :: 'w word) = sint m mod 2 ^ LENGTH('w)"
    by (simp only: uint_word_of_int)
  also have "\<dots> = sint m"
    using assms(1) lt by (intro mod_pos_pos_trivial) simp_all
  finally show ?thesis .
qed

lemma sample_stats_free: "mutexes_free sample_stats"
  by (simp add: sample_stats_def mutexes_free_def init_rng_stats_def pthread_mutex_init_def)


subsection \<open>The pidfile and the lock\<close>

lemma write_pid_eq:
  "write_pid pid fp =
     \<lparr> file_bytes = fmt_ld (sint pid) @ [CHR 0x0A],
       file_pos = Suc (length (fmt_ld (sint pid))) \<rparr>"
  by (cases fp) (simp add: write_pid_def rewind_def fputs_at_def fflush_def ftell_def ftruncate_def Let_def)



















lemma flock_loop_interrupted:
  "r \<noteq> Flock_fail EINTR \<Longrightarrow>
   flock_loop (replicate k (Flock_fail EINTR) @ r # rest)
     = (replicate k (Flock_fail EINTR) @ [r], Some r)"
  by (induction k) simp_all

lemma get_lock_open_fails:
  assumes "daemon_lockfp s = None" "open_res env = None"
  shows "get_lock env name s =
           die EXIT_USAGE (emit [Open_rdwr_creat name, ALOGE ''can't open or create %s'' [S name]] s)"
  using assms by (simp add: get_lock_def and_then_def die_def)

lemma get_lock_fdopen_fails:
  assumes "daemon_lockfp s = None" "open_res env = Some bytes" "\<not> fdopen_ok env"
  shows "get_lock env name s =
           die EXIT_USAGE
             (emit [Open_rdwr_creat name, Fdopen, ALOGE ''can't open or create %s'' [S name]] s)"
  using assms by (simp add: get_lock_def and_then_def die_def)

lemma get_lock_flock_fails:
  assumes "daemon_lockfp s = None" "open_res env = Some bytes" "fdopen_ok env"
    and "flock_loop (flock_res env) = (calls, Some (Flock_fail e))"
  shows "exit_status (get_lock env name s) = Some EXIT_USAGE"
    and "events (final_state (get_lock env name s))
           = events s @ [Open_rdwr_creat name, Fdopen, Fcntl_setfd] @ map Flock calls
             @ [if e = EWOULDBLOCK
                then ALOGE ''can't lock %s, running daemon's pid may be %d''
                       [S name, D (stored_int (fst (scan_int bytes)))]
                else ALOGE ''can't lock %s'' [S name]]
             @ (if am_daemon s then [ALOGE ''Exiting with status %d...'' [Status EXIT_USAGE]]
                else [])"
  using assms
  by (simp_all add: get_lock_def and_then_def die_def emit_def Let_def rewind_def fscanf_d_def
      split: prod.splits)

lemma get_lock_acquired:
  assumes "daemon_lockfp s = None" "open_res env = Some bytes" "fdopen_ok env"
    and "flock_res env = replicate k (Flock_fail EINTR) @ Flock_ok # rest"
  shows "get_lock env name s =
           Returns (s\<lparr>daemon_lockfp := Some (write_pid (getpid_res env) \<lparr>file_bytes = bytes, file_pos = 0\<rparr>),
                     events := events s @ [Open_rdwr_creat name, Fdopen, Fcntl_setfd]
                        @ replicate k (Flock (Flock_fail EINTR)) @ [Flock Flock_ok]\<rparr>)"
  using assms
  by (simp add: get_lock_def and_then_def flock_loop_interrupted emit_def Let_def)

lemma get_lock_again:
  assumes "daemon_lockfp s = Some fp"
  shows "get_lock env name s = Returns (s\<lparr>daemon_lockfp := Some (write_pid (getpid_res env) fp)\<rparr>)"
  using assms by (simp add: get_lock_def and_then_def)

lemma die_exit_status: "exit_status (die c s) = Some c"
  by (simp add: die_def)

lemma die_events:
  "events (final_state (die c s)) =
     events s @ (if am_daemon s then [ALOGE ''Exiting with status %d...'' [Status c]] else [])"
  by (simp add: die_def emit_def)

lemma fmt_ld_100: "fmt_ld 100 = ''100''"
  by code_simp

lemma fmt_ld_101: "fmt_ld 101 = ''101''"
  by code_simp

lemma isdigit_chars:
  "isdigit CHR ''0''" "isdigit CHR ''1''" "isdigit CHR ''2''" "isdigit CHR ''3''"
  "isdigit CHR ''4''" "isdigit CHR ''5''" "isdigit CHR ''6''" "isdigit CHR ''7''"
  "isdigit CHR ''8''" "isdigit CHR ''9''" "\<not> isdigit CHR 0x0A"
  by (simp_all add: isdigit_def)

lemma isspace_chars:
  "\<not> isspace CHR ''-''" "\<not> isspace CHR ''4''" "\<not> isspace CHR ''9''"
  by (simp_all add: isspace_def)


lemma scan_int_saturates:
  "stored_int (fst (scan_int ''9223372036854775808'')) = - 1"
  "stored_int (fst (scan_int ''-9223372036854775809'')) = 0"
  by (simp_all add: scan_int_def isdigit_chars isspace_chars digit_val_def saturate_def
      INTMAX_MIN_def INTMAX_MAX_def Let_def stored_int_def)

subsection \<open>Signals, the wait loop and the start of \<^verbatim>\<open>main\<close>\<close>

lemma deliver_frame:
  "events (deliver a s) = events s"
  "rng_stats (deliver a s) = rng_stats s"
  "am_daemon (deliver a s) = am_daemon s"
  "daemon_lockfp (deliver a s) = daemon_lockfp s"
  by (cases a; simp)+

lemma fold_deliver_frame:
  "events (fold deliver as s) = events s"
  "rng_stats (fold deliver as s) = rng_stats s"
  "am_daemon (fold deliver as s) = am_daemon s"
  "daemon_lockfp (fold deliver as s) = daemon_lockfp s"
  by (induction as arbitrary: s; simp add: deliver_frame)+

lemma deliver_gotsigterm:
  "gotsigterm (deliver a s) = (gotsigterm s \<or> requests_termination a)"
  by (cases a) simp_all

lemma fold_deliver_gotsigterm:
  "gotsigterm (fold deliver as s) = (gotsigterm s \<or> list_ex requests_termination as)"
  by (induction as arbitrary: s) (auto simp: deliver_gotsigterm)

lemma deliver_exitstatus:
  "exitstatus (deliver a s) = (if is_worker_fatal a then EXIT_OSERR else exitstatus s)"
  by (cases a) simp_all

lemma fold_deliver_exitstatus:
  "exitstatus (fold deliver as s)
     = (if list_ex is_worker_fatal as then EXIT_OSERR else exitstatus s)"
  by (induction as arbitrary: s) (auto simp: deliver_exitstatus)

lemma is_worker_fatal_requests: "is_worker_fatal a \<Longrightarrow> requests_termination a"
  by (cases a) simp_all

lemma main_loop_Returns_gotsigterm:
  "main_loop ws t s = Returns s' \<Longrightarrow> gotsigterm s'"
proof (induction ws arbitrary: t s)
  case Nil
  then show ?case by (simp split: if_splits)
next
  case (Cons w ws)
  then show ?case
    by (auto simp: Let_def split: if_splits option.splits)
qed


lemma main_loop_check_exit:
  "gotsigterm (fold deliver (before_check w) s) \<Longrightarrow>
   main_loop (w # ws) t s = Returns (fold deliver (before_check w) s)"
  by (simp add: Let_def)

lemma after_sleep_frame:
  "events (after_sleep w t s) = events s @ [Sleep t (sleep_res w)]"
  "rng_stats (after_sleep w t s) = rng_stats s"
  "am_daemon (after_sleep w t s) = am_daemon s"
  "daemon_lockfp (after_sleep w t s) = daemon_lockfp s"
  by (simp_all add: after_sleep_def fold_deliver_frame emit_def)

lemma after_sleep_gotsigterm:
  "gotsigterm (after_sleep w t s)
     = (gotsigterm s \<or> list_ex requests_termination (before_check w)
        \<or> list_ex requests_termination (while_asleep w))"
  by (simp add: after_sleep_def fold_deliver_gotsigterm emit_def)

lemma after_sleep_exitstatus:
  "exitstatus (after_sleep w t s)
     = (if list_ex is_worker_fatal (before_check w) \<or> list_ex is_worker_fatal (while_asleep w)
        then EXIT_OSERR else exitstatus s)"
  by (simp add: after_sleep_def fold_deliver_exitstatus emit_def)

lemma main_loop_wake_dump:
  assumes "\<not> gotsigterm (fold deliver (before_check w) s)"
    and "mutexes_free (rng_stats s)"
    and "sleep_res w = 0 \<or> gotsigusr1 (after_sleep w t s) \<or> gotsigterm (after_sleep w t s)"
  shows "main_loop (w # ws) t s =
           main_loop ws RNGD_STAT_SLEEP_TIME
             ((after_sleep w t s)
                \<lparr>events := events (after_sleep w t s) @ dump_lines (rng_stats (after_sleep w t s)),
                 gotsigusr1 := False\<rparr>)"
proof -
  have free: "mutexes_free (rng_stats (after_sleep w t s))"
    using assms(2) by (simp add: after_sleep_frame)
  have same: "(emit (dump_lines (rng_stats (after_sleep w t s))) (after_sleep w t s))
                \<lparr>rng_stats := rng_stats (after_sleep w t s), gotsigusr1 := False\<rparr>
              = (after_sleep w t s)
                \<lparr>events := events (after_sleep w t s) @ dump_lines (rng_stats (after_sleep w t s)),
                 gotsigusr1 := False\<rparr>"
    by (simp add: emit_def)
  from assms(1,3) show ?thesis
    by (simp add: Let_def dump_rng_stats_free [OF free] same after_sleep_def [symmetric]
        del: fold_simps)
qed

lemma main_loop_wake_other:
  assumes "\<not> gotsigterm (fold deliver (before_check w) s)"
    and "\<not> (sleep_res w = 0 \<or> gotsigusr1 (after_sleep w t s) \<or> gotsigterm (after_sleep w t s))"
  shows "main_loop (w # ws) t s = main_loop ws (sleep_res w) (after_sleep w t s)"
  using assms by (simp add: Let_def after_sleep_def [symmetric])


declare main_loop.simps(2) [simp del]

lemma main_loop_quiet_step:
  assumes q: "quiet w" and nt: "\<not> gotsigterm s" and free: "mutexes_free (rng_stats s)"
  shows "\<exists>t' s'. (\<forall>ws. main_loop (w # ws) t s = main_loop ws t' s') \<and>
           \<not> gotsigterm s' \<and> rng_stats s' = rng_stats s \<and> exitstatus s' = exitstatus s \<and>
           am_daemon s' = am_daemon s \<and>
           (\<exists>more. events s' = events s @ more \<and> filter is_pthread_create more = [])"
proof -
  let ?a = "after_sleep w t s"
  from q nt have c: "\<not> gotsigterm (fold deliver (before_check w) s)"
    by (simp add: quiet_def fold_deliver_gotsigterm)
  from q nt have na: "\<not> gotsigterm ?a"
    by (simp add: quiet_def after_sleep_gotsigterm)
  from q have nf: "\<not> list_ex is_worker_fatal (before_check w)"
    "\<not> list_ex is_worker_fatal (while_asleep w)"
    by (auto simp: quiet_def list_ex_iff dest: is_worker_fatal_requests)
  then have ex: "exitstatus ?a = exitstatus s"
    by (simp add: after_sleep_exitstatus)
  show ?thesis
  proof (cases "sleep_res w = 0 \<or> gotsigusr1 ?a \<or> gotsigterm ?a")
    case True
    let ?s' = "?a\<lparr>events := events ?a @ dump_lines (rng_stats ?a), gotsigusr1 := False\<rparr>"
    have "\<forall>ws. main_loop (w # ws) t s = main_loop ws RNGD_STAT_SLEEP_TIME ?s'"
      using main_loop_wake_dump [OF c free True] by blast
    moreover have "\<not> gotsigterm ?s'" "rng_stats ?s' = rng_stats s"
      "exitstatus ?s' = exitstatus s" "am_daemon ?s' = am_daemon s"
      using na ex by (simp_all add: after_sleep_frame)
    moreover have "events ?s' = events s @ (Sleep t (sleep_res w) # dump_lines (rng_stats s))"
      "filter is_pthread_create (Sleep t (sleep_res w) # dump_lines (rng_stats s)) = []"
      by (simp_all add: after_sleep_frame dump_lines_def)
    ultimately show ?thesis by blast
  next
    case False
    have "\<forall>ws. main_loop (w # ws) t s = main_loop ws (sleep_res w) ?a"
      using main_loop_wake_other [OF c False] by blast
    moreover have "rng_stats ?a = rng_stats s" "am_daemon ?a = am_daemon s"
      by (simp_all add: after_sleep_frame)
    moreover have "events ?a = events s @ [Sleep t (sleep_res w)]"
      "filter is_pthread_create [Sleep t (sleep_res w)] = []"
      by (simp_all add: after_sleep_frame)
    ultimately show ?thesis using na ex by blast
  qed
qed

lemma main_loop_quiet:
  assumes "\<forall>w\<in>set ws. quiet w" "\<not> gotsigterm s" "mutexes_free (rng_stats s)"
  shows "\<exists>t' s'. (\<forall>rest. main_loop (ws @ rest) t s = main_loop rest t' s') \<and>
           \<not> gotsigterm s' \<and> rng_stats s' = rng_stats s \<and> exitstatus s' = exitstatus s \<and>
           am_daemon s' = am_daemon s \<and>
           (\<exists>more. events s' = events s @ more \<and> filter is_pthread_create more = [])"
  using assms
proof (induction ws arbitrary: t s)
  case Nil
  have "events s = events s @ []" "filter is_pthread_create [] = []" by simp_all
  with Nil show ?case by (intro exI [of _ t] exI [of _ s]) simp
next
  case (Cons w ws)
  from Cons.prems have q: "quiet w" and qs: "\<forall>w\<in>set ws. quiet w" by simp_all
  from main_loop_quiet_step [OF q Cons.prems(2,3), of t]
  obtain t1 s1 more1 where
    step: "\<forall>ws. main_loop (w # ws) t s = main_loop ws t1 s1"
    and p1: "\<not> gotsigterm s1" "rng_stats s1 = rng_stats s" "exitstatus s1 = exitstatus s"
      "am_daemon s1 = am_daemon s"
    and e1: "events s1 = events s @ more1" "filter is_pthread_create more1 = []"
    by blast
  from p1 Cons.prems(3) have free1: "mutexes_free (rng_stats s1)" by simp
  from Cons.IH [OF qs p1(1) free1, of t1]
  obtain t2 s2 more2 where
    rest: "\<forall>rest. main_loop (ws @ rest) t1 s1 = main_loop rest t2 s2"
    and p2: "\<not> gotsigterm s2" "rng_stats s2 = rng_stats s1" "exitstatus s2 = exitstatus s1"
      "am_daemon s2 = am_daemon s1"
    and e2: "events s2 = events s1 @ more2" "filter is_pthread_create more2 = []"
    by blast
  have "\<forall>rest. main_loop ((w # ws) @ rest) t s = main_loop rest t2 s2"
    using step rest by simp
  moreover have "events s2 = events s @ (more1 @ more2)"
    "filter is_pthread_create (more1 @ more2) = []"
    using e1 e2 by simp_all
  ultimately show ?case
    using p1 p2 by (metis (no_types, lifting))
qed

lemma main_loop_terminated:
  assumes "gotsigterm s"
  shows "\<exists>s'. main_loop rest t s = Returns s' \<and> events s' = events s \<and>
           rng_stats s' = rng_stats s \<and> am_daemon s' = am_daemon s \<and>
           (exitstatus s = EXIT_OSERR \<longrightarrow> exitstatus s' = EXIT_OSERR)"
proof (cases rest)
  case Nil
  with assms show ?thesis by simp
next
  case (Cons w ws)
  have "gotsigterm (fold deliver (before_check w) s)"
    using assms by (simp add: fold_deliver_gotsigterm)
  then have "main_loop rest t s = Returns (fold deliver (before_check w) s)"
    unfolding Cons by (rule main_loop_check_exit)
  then show ?thesis
    by (simp add: fold_deliver_frame fold_deliver_exitstatus)
qed

lemma main_loop_events:
  "\<exists>more. events (final_state (main_loop ws t s)) = events s @ more \<and>
          filter is_pthread_create more = []"
proof (induction ws arbitrary: t s)
  case Nil
  show ?case by simp
next
  case (Cons w ws)
  let ?c = "fold deliver (before_check w) s"
  let ?a = "after_sleep w t s"
  show ?case
  proof (cases "gotsigterm ?c")
    case True
    then show ?thesis
      by (simp add: main_loop_check_exit fold_deliver_frame)
  next
    case c: False
    show ?thesis
    proof (cases "sleep_res w = 0 \<or> gotsigusr1 ?a \<or> gotsigterm ?a")
      case False
      from Cons.IH [of "sleep_res w" ?a]
      obtain more where "events (final_state (main_loop ws (sleep_res w) ?a)) = events ?a @ more"
        "filter is_pthread_create more = []" by blast
      then have "events (final_state (main_loop (w # ws) t s))
                   = events s @ (Sleep t (sleep_res w) # more)"
        "filter is_pthread_create (Sleep t (sleep_res w) # more) = []"
        by (simp_all add: main_loop_wake_other [OF c False] after_sleep_frame)
      then show ?thesis by blast
    next
      case True
      show ?thesis
      proof (cases "mutexes_free (rng_stats s)")
        case free: True
        let ?s' = "?a\<lparr>events := events ?a @ dump_lines (rng_stats ?a), gotsigusr1 := False\<rparr>"
        from Cons.IH [of RNGD_STAT_SLEEP_TIME ?s']
        obtain more where
          "events (final_state (main_loop ws RNGD_STAT_SLEEP_TIME ?s')) = events ?s' @ more"
          "filter is_pthread_create more = []" by blast
        then have "events (final_state (main_loop (w # ws) t s))
                     = events s @ (Sleep t (sleep_res w) # dump_lines (rng_stats s) @ more)"
          "filter is_pthread_create (Sleep t (sleep_res w) # dump_lines (rng_stats s) @ more) = []"
          by (simp_all add: main_loop_wake_dump [OF c free True] after_sleep_frame dump_lines_def)
        then show ?thesis by blast
      next
        case False
        then have "dump_rng_stats (rng_stats ?a) = None"
          by (simp add: dump_rng_stats_taken after_sleep_frame)
        with c True have "main_loop (w # ws) t s = Blocks ?a"
          by (simp add: main_loop.simps Let_def after_sleep_def [symmetric] del: fold_simps)
        then have "events (final_state (main_loop (w # ws) t s)) = events s @ [Sleep t (sleep_res w)]"
          "filter is_pthread_create [Sleep t (sleep_res w)] = []"
          by (simp_all add: after_sleep_frame)
        then show ?thesis by blast
      qed
    qed
  qed
qed


lemma and_then_simps:
  "and_then (Returns s) f = f s"
  "and_then (Exits c s) f = Exits c s"
  "and_then (Blocks s) f = Blocks s"
  by (simp_all add: and_then_def)

lemma exit_status_and_then_Exits:
  "exit_status r = Some c \<Longrightarrow> exit_status (and_then r f) = Some c"
  by (cases r) (simp_all add: and_then_simps)

lemma get_lock_fails:
  assumes "daemon_lockfp s = None" "lock_fails env"
  shows "exit_status (get_lock env name s) = Some EXIT_USAGE"
proof (cases "open_res env")
  case None
  with assms(1) show ?thesis
    by (simp add: get_lock_open_fails die_exit_status)
next
  case (Some bytes)
  show ?thesis
  proof (cases "fdopen_ok env")
    case False
    with assms(1) Some show ?thesis
      by (simp add: get_lock_fdopen_fails die_exit_status)
  next
    case True
    with assms(2) Some obtain e where "flock_outcome env = Some (Flock_fail e)"
      by (auto simp: lock_fails_def split: option.splits flock_result.splits)
    then obtain calls where "flock_loop (flock_res env) = (calls, Some (Flock_fail e))"
      by (cases "flock_loop (flock_res env)") (simp add: flock_outcome_def)
    with assms(1) Some True show ?thesis
      by (simp add: get_lock_flock_fails(1))
  qed
qed

lemma get_lock_acquires:
  assumes "daemon_lockfp s = None" "lock_acquired env"
  shows "\<exists>fp more. get_lock env name s
           = Returns (s\<lparr>daemon_lockfp := Some fp, events := events s @ more\<rparr>) \<and>
           filter is_pthread_create more = []"
proof -
  from assms(2) obtain bytes where o: "open_res env = Some bytes" and f: "fdopen_ok env"
    and fo: "flock_outcome env = Some Flock_ok"
    by (auto simp: lock_acquired_def)
  from fo obtain calls where fl: "flock_loop (flock_res env) = (calls, Some Flock_ok)"
    by (cases "flock_loop (flock_res env)") (simp add: flock_outcome_def)
  let ?more = "[Open_rdwr_creat name, Fdopen, Fcntl_setfd] @ map Flock calls"
  have "get_lock env name s =
          Returns (s\<lparr>daemon_lockfp := Some (write_pid (getpid_res env) \<lparr>file_bytes = bytes, file_pos = 0\<rparr>),
                    events := events s @ ?more\<rparr>)"
    using assms(1) o f fl by (simp add: get_lock_def and_then_def Let_def emit_def)
  moreover have "filter is_pthread_create ?more = []"
    by (induction calls) simp_all
  ultimately show ?thesis by blast
qed

lemma main_check_kernel_eq:
  "main_check_kernel e s =
     (if kernel_mode_res e = KERNEL_UNSUPPORTED
      then die EXIT_OSERR (emit [ALOGE ''Unsupported kernel detected, exiting...'' []]
                             (s\<lparr>kernel := kernel_mode_res e\<rparr>))
      else Returns (s\<lparr>kernel := kernel_mode_res e\<rparr>))"
  by (simp add: main_check_kernel_def Let_def)

lemma main_init_eq:
  "main_init args s =
     Returns (s\<lparr>rng_stats := snd (init_rng_stats (rng_buffers args)),
               events := events s @ map Close_fd [3..<250]
                 @ [Set_stat_prefix ''stats: '', Init_sighandlers, Init_entropy_source,
                    Init_kernel_rng]\<rparr>)"
  by (simp add: main_init_def Let_def init_rng_stats_def emit_def del: upt_rec_numeral)

lemma main_daemonize_not: "\<not> daemon args \<Longrightarrow> main_daemonize args e s = Returns s"
  by (simp add: main_daemonize_def)

lemma main_daemonize_lock_fails:
  assumes "daemon args" "daemon_lockfp s = None" "lock_fails (lock e)"
  shows "exit_status (main_daemonize args e s) = Some EXIT_USAGE"
  using assms
  by (simp add: main_daemonize_def exit_status_and_then_Exits get_lock_fails)

lemma main_daemonize_lock_acquired:
  assumes "daemon args" "daemon_lockfp s = None" "lock_acquired (lock e)"
  shows "\<exists>fp fp' more.
           main_daemonize args e s =
             (if daemon_res e <s 0
              then Exits EXIT_OSERR
                     (s\<lparr>daemon_lockfp := Some fp,
                        events := events s @ more @ [ALOGE ''can't daemonize'' []]\<rparr>)
              else Returns (s\<lparr>daemon_lockfp := Some fp', am_daemon := True,
                              events := events s @ more\<rparr>)) \<and>
           filter is_pthread_create more = []"
proof -
  from get_lock_acquires [OF assms(2,3), of "pidfile_name args"]
  obtain fp more where
    g: "get_lock (lock e) (pidfile_name args) s
          = Returns (s\<lparr>daemon_lockfp := Some fp, events := events s @ more\<rparr>)"
    and m: "filter is_pthread_create more = []"
    by blast
  let ?more = "more @ [Daemon (daemon_res e)]"
  let ?fp = "write_pid (daemon_pid e) fp"
  have "main_daemonize args e s =
          (if daemon_res e <s 0
           then Exits EXIT_OSERR
                  (s\<lparr>daemon_lockfp := Some fp,
                     events := events s @ ?more @ [ALOGE ''can't daemonize'' []]\<rparr>)
           else Returns (s\<lparr>daemon_lockfp := Some ?fp, am_daemon := True,
                           events := events s @ ?more\<rparr>))"
    using assms(1)
    by (simp add: main_daemonize_def g and_then_simps Let_def emit_def get_lock_again)
  moreover have "filter is_pthread_create ?more = []"
    using m by simp
  ultimately show ?thesis
    by (intro exI [of _ fp] exI [of _ ?fp] exI [of _ ?more]) simp
qed


lemma get_lock_frame:
  "rng_stats (final_state (get_lock env name s)) = rng_stats s"
  "gotsigterm (final_state (get_lock env name s)) = gotsigterm s"
  "gotsigusr1 (final_state (get_lock env name s)) = gotsigusr1 s"
  "exitstatus (final_state (get_lock env name s)) = exitstatus s"
  by (auto simp: get_lock_def and_then_def die_def emit_def Let_def
      split: option.splits prod.splits flock_result.splits)

lemma main_daemonize_frame:
  "rng_stats (final_state (main_daemonize args e s)) = rng_stats s \<and>
   gotsigterm (final_state (main_daemonize args e s)) = gotsigterm s \<and>
   gotsigusr1 (final_state (main_daemonize args e s)) = gotsigusr1 s \<and>
   exitstatus (final_state (main_daemonize args e s)) = exitstatus s"
proof (cases "daemon args")
  case False
  then show ?thesis by (simp add: main_daemonize_not)
next
  case True
  let ?g = "get_lock (lock e) (pidfile_name args) s"
  have g: "rng_stats (final_state ?g) = rng_stats s" "gotsigterm (final_state ?g) = gotsigterm s"
    "gotsigusr1 (final_state ?g) = gotsigusr1 s" "exitstatus (final_state ?g) = exitstatus s"
    by (rule get_lock_frame)+
  show ?thesis
  proof (cases ?g)
    case (Returns s1)
    with g have s1: "rng_stats s1 = rng_stats s" "gotsigterm s1 = gotsigterm s"
      "gotsigusr1 s1 = gotsigusr1 s" "exitstatus s1 = exitstatus s"
      by simp_all
    from True Returns show ?thesis
      by (simp add: main_daemonize_def and_then_simps Let_def get_lock_frame emit_def s1)
  next
    case (Exits c s1)
    with g True show ?thesis
      by (simp add: main_daemonize_def and_then_simps)
  next
    case (Blocks s1)
    with g True show ?thesis
      by (simp add: main_daemonize_def and_then_simps)
  qed
qed

lemma main_startup_Returns:
  assumes "main_startup args e s0 = Returns s"
  shows "rng_stats s = snd (init_rng_stats (rng_buffers args))"
    "gotsigterm s = gotsigterm s0" "gotsigusr1 s = gotsigusr1 s0" "exitstatus s = exitstatus s0"
    "kernel_mode_res e \<noteq> KERNEL_UNSUPPORTED"
proof -
  show k: "kernel_mode_res e \<noteq> KERNEL_UNSUPPORTED"
    using assms
    by (auto simp: main_startup_def main_check_kernel_eq and_then_simps die_def)
  let ?s2 = "s0\<lparr>kernel := kernel_mode_res e,
                 rng_stats := snd (init_rng_stats (rng_buffers args)),
                 events := events s0 @ map Close_fd [3..<250]
                   @ [Set_stat_prefix ''stats: '', Init_sighandlers, Init_entropy_source,
                      Init_kernel_rng]\<rparr>"
  from assms k have "main_daemonize args e ?s2 = Returns s"
    by (simp add: main_startup_def main_check_kernel_eq and_then_simps main_init_eq
        del: upt_rec_numeral)
  then have s: "s = final_state (main_daemonize args e ?s2)"
    by simp
  show "rng_stats s = snd (init_rng_stats (rng_buffers args))"
    "gotsigterm s = gotsigterm s0" "gotsigusr1 s = gotsigusr1 s0" "exitstatus s = exitstatus s0"
    unfolding s using main_daemonize_frame [of args e ?s2] by simp_all
qed

lemma word_or3_zero:
  fixes r1 r2 r3 :: "32 word"
  shows "r1 OR r2 OR r3 = 0 \<longleftrightarrow> r1 = 0 \<and> r2 = 0 \<and> r3 = 0"
  by (simp add: or_eq_0_iff)

lemma main_start_threads_eq:
  assumes "pthread_create_res e = (r1, r2, r3)"
  shows "main_start_threads args e s =
     (let s3 = s\<lparr>masterprocess := (if daemon args then daemon_pid e else getpid_res (lock e)),
                  events := events s @
                    [ALOGI ''rngd 2.14 starting up...'' [],
                     Init_rng_buffers (rng_buffers args), Init_sighandlers,
                     Pthread_create do_rng_data_source_loop r1,
                     Pthread_create do_rng_fips_test_loop r2,
                     Pthread_create do_rng_data_sink_loop r3]\<rparr>
      in if r1 = 0 \<and> r2 = 0 \<and> r3 = 0 then Returns s3
         else die EXIT_OSERR (emit [ALOGE ''Insufficient resources to start threads'' []] s3))"
  using assms
  by (simp add: main_start_threads_def Let_def emit_def word_or3_zero)

lemma main_loop_all_quiet:
  assumes "\<forall>w\<in>set ws. quiet w" "\<not> gotsigterm s" "mutexes_free (rng_stats s)"
  shows "\<exists>s'. main_loop ws t s = Blocks s'"
proof -
  from main_loop_quiet [OF assms, of t]
  obtain t' s' where "\<forall>rest. main_loop (ws @ rest) t s = main_loop rest t' s'" "\<not> gotsigterm s'"
    by blast
  then have "main_loop (ws @ []) t s = main_loop [] t' s'" "main_loop [] t' s' = Blocks s'"
    by (blast, simp)
  then show ?thesis by simp
qed

lemma main_loop_first_request:
  assumes q: "\<forall>v\<in>set ws. quiet v" and nq: "\<not> quiet w"
    and nt: "\<not> gotsigterm s" and free: "mutexes_free (rng_stats s)"
  shows "\<exists>s'. main_loop (ws @ w # rest) t s = Returns s'"
proof -
  from main_loop_quiet [OF q nt free, of t]
  obtain t1 s1 where
    pre: "\<forall>rest. main_loop (ws @ rest) t s = main_loop rest t1 s1"
    and p1: "\<not> gotsigterm s1" "rng_stats s1 = rng_stats s"
    by blast
  from p1 free have free1: "mutexes_free (rng_stats s1)" by simp
  have "\<exists>s'. main_loop (w # rest) t1 s1 = Returns s'"
  proof (cases "gotsigterm (fold deliver (before_check w) s1)")
    case True
    then show ?thesis by (simp add: main_loop_check_exit)
  next
    case False
    with nq p1 have a: "gotsigterm (after_sleep w t1 s1)"
      by (simp add: quiet_def after_sleep_gotsigterm fold_deliver_gotsigterm)
    then have c: "sleep_res w = 0 \<or> gotsigusr1 (after_sleep w t1 s1) \<or> gotsigterm (after_sleep w t1 s1)"
      by simp
    let ?s' = "(after_sleep w t1 s1)
                \<lparr>events := events (after_sleep w t1 s1) @ dump_lines (rng_stats (after_sleep w t1 s1)),
                 gotsigusr1 := False\<rparr>"
    have "gotsigterm ?s'" using a by simp
    from main_loop_terminated [OF this, of rest RNGD_STAT_SLEEP_TIME]
    show ?thesis
      by (simp only: main_loop_wake_dump [OF False free1 c]) blast
  qed
  with pre show ?thesis by simp
qed

lemma main_loop_exits_iff:
  assumes "mutexes_free (rng_stats s)"
  shows "(\<exists>s'. main_loop ws t s = Returns s') \<longleftrightarrow> gotsigterm s \<or> (\<exists>w\<in>set ws. \<not> quiet w)"
proof (cases "gotsigterm s")
  case True
  with main_loop_terminated [OF True, of ws t] show ?thesis by blast
next
  case nt: False
  show ?thesis
  proof (cases "\<exists>w\<in>set ws. \<not> quiet w")
    case True
    then obtain ws1 w rest where "ws = ws1 @ w # rest" "\<not> quiet w" "\<forall>v\<in>set ws1. quiet v"
      using split_list_first_prop [of ws "\<lambda>w. \<not> quiet w"] by auto
    with main_loop_first_request [of ws1 w s rest t] nt assms True show ?thesis
      by blast
  next
    case False
    then have "\<forall>w\<in>set ws. quiet w" by simp
    from main_loop_all_quiet [OF this nt assms, of t] nt False show ?thesis
      by auto
  qed
qed

lemma initial_state_free: "mutexes_free (rng_stats (initial_state :: ('w::len, 'z::zero) rngd))"
  by (simp add: initial_state_def mutexes_free_def)

lemma main_exit_eq:
  "main_exit s =
     Exits (exitstatus s)
       (s\<lparr>events := events s @
           [if exitstatus s = EXIT_SUCCESS then ALOGI ''Exiting...'' []
            else ALOGE ''Exiting with status %d'' [Status (exitstatus s)]]\<rparr>)"
  by (simp add: main_exit_def emit_def)

lemma main_wait_events:
  "\<exists>later. events (final_state (and_then (main_loop ws t s) main_exit)) = events s @ later \<and>
           filter is_pthread_create later = []"
proof -
  from main_loop_events [of ws t s]
  obtain more where m: "events (final_state (main_loop ws t s)) = events s @ more"
    "filter is_pthread_create more = []" by blast
  show ?thesis
  proof (cases "main_loop ws t s")
    case (Returns s')
    let ?l = "if exitstatus s' = EXIT_SUCCESS then ALOGI ''Exiting...'' []
              else ALOGE ''Exiting with status %d'' [Status (exitstatus s')]"
    from Returns m have "events (final_state (and_then (main_loop ws t s) main_exit))
        = events s @ (more @ [?l])" "filter is_pthread_create (more @ [?l]) = []"
      by (simp_all add: and_then_simps main_exit_eq)
    then show ?thesis by blast
  next
    case (Exits c s')
    with m show ?thesis by (simp add: and_then_simps)
  next
    case (Blocks s')
    with m show ?thesis by (simp add: and_then_simps)
  qed
qed

lemma main_startup_reaches:
  fixes s0 :: "('w::len, 'z::zero) rngd"
  assumes "kernel_mode_res e \<noteq> KERNEL_UNSUPPORTED"
    and "daemon args \<longrightarrow> daemon_lockfp s0 = None \<and> lock_acquired (lock e) \<and> \<not> daemon_res e <s 0"
  shows "\<exists>s3. main_startup args e s0 = Returns s3"
proof -
  let ?s2 = "s0\<lparr>kernel := kernel_mode_res e,
                 rng_stats := snd (init_rng_stats (rng_buffers args)),
                 events := events s0 @ map Close_fd [3..<250]
                   @ [Set_stat_prefix ''stats: '', Init_sighandlers, Init_entropy_source,
                      Init_kernel_rng]\<rparr>"
  have m: "main_startup args e s0 = main_daemonize args e ?s2"
    using assms(1)
    by (simp add: main_startup_def main_check_kernel_eq and_then_simps main_init_eq
        del: upt_rec_numeral)
  show ?thesis
  proof (cases "daemon args")
    case False
    then show ?thesis by (simp add: m main_daemonize_not)
  next
    case True
    with assms(2) have l: "daemon_lockfp ?s2 = None" "lock_acquired (lock e)"
      and d: "\<not> daemon_res e <s 0"
      by simp_all
    from main_daemonize_lock_acquired [OF True l] d show ?thesis
      unfolding m by auto
  qed
qed

lemma main_prologue_reaches:
  fixes s0 :: "('w::len, 'z::zero) rngd"
  assumes "kernel_mode_res e \<noteq> KERNEL_UNSUPPORTED"
    and "daemon args \<longrightarrow> daemon_lockfp s0 = None \<and> lock_acquired (lock e) \<and> \<not> daemon_res e <s 0"
    and "pthread_create_res e = (0, 0, 0)"
  shows "\<exists>s4. main_prologue args e s0 = Returns s4"
proof -
  from main_startup_reaches [OF assms(1,2)]
  obtain s3 where "main_startup args e s0 = Returns s3" by blast
  then show ?thesis
    by (simp add: main_prologue_def and_then_simps main_start_threads_eq [OF assms(3)] Let_def)
qed

lemma main_prologue_Returns:
  fixes s0 :: "('w::len, 'z::zero) rngd"
  assumes "main_prologue args e s0 = Returns s4"
  shows "mutexes_free (rng_stats s4)" "gotsigterm s4 = gotsigterm s0"
    "exitstatus s4 = exitstatus s0"
proof -
  obtain r1 r2 r3 where r: "pthread_create_res e = (r1, r2, r3)"
    by (cases "pthread_create_res e") auto
  from assms obtain s3 where s3: "main_startup args e s0 = Returns s3"
    by (cases "main_startup args e s0") (simp_all add: main_prologue_def and_then_simps)
  from assms have "main_start_threads args e s3 = Returns s4"
    by (simp add: main_prologue_def s3 and_then_simps)
  then have "rng_stats s4 = rng_stats s3 \<and> gotsigterm s4 = gotsigterm s3 \<and>
             exitstatus s4 = exitstatus s3"
    by (auto simp: main_start_threads_eq [OF r] Let_def die_def split: if_splits)
  with main_startup_Returns [OF s3]
  show "mutexes_free (rng_stats s4)" "gotsigterm s4 = gotsigterm s0"
    "exitstatus s4 = exitstatus s0"
    by (simp_all add: init_mutexes_free)
qed

lemma main_loop_dump_before_exit:
  assumes q: "\<forall>v\<in>set ws. quiet v" and nt: "\<not> gotsigterm s"
    and free: "mutexes_free (rng_stats s)"
    and nb: "\<not> list_ex requests_termination (before_check w)"
    and ta: "list_ex requests_termination (while_asleep w)"
  shows "\<exists>s' pre. main_loop (ws @ w # rest) t s = Returns s' \<and>
           events s' = pre @ dump_lines (rng_stats s') \<and>
           (list_ex is_worker_fatal (while_asleep w) \<longrightarrow> exitstatus s' = EXIT_OSERR)"
proof -
  from main_loop_quiet [OF q nt free, of t]
  obtain t1 s1 where
    pre: "\<forall>rest. main_loop (ws @ rest) t s = main_loop rest t1 s1"
    and p1: "\<not> gotsigterm s1" "rng_stats s1 = rng_stats s"
    by blast
  from p1 free have free1: "mutexes_free (rng_stats s1)" by simp
  let ?a = "after_sleep w t1 s1"
  let ?d = "?a\<lparr>events := events ?a @ dump_lines (rng_stats ?a), gotsigusr1 := False\<rparr>"
  from nb p1 have c: "\<not> gotsigterm (fold deliver (before_check w) s1)"
    by (simp add: fold_deliver_gotsigterm)
  from ta have a: "gotsigterm ?a"
    by (simp add: after_sleep_gotsigterm)
  then have w: "sleep_res w = 0 \<or> gotsigusr1 ?a \<or> gotsigterm ?a" by simp
  have step: "main_loop (w # rest) t1 s1 = main_loop rest RNGD_STAT_SLEEP_TIME ?d"
    by (rule main_loop_wake_dump [OF c free1 w])
  have "gotsigterm ?d" using a by simp
  from main_loop_terminated [OF this, of rest RNGD_STAT_SLEEP_TIME]
  obtain s' where s': "main_loop rest RNGD_STAT_SLEEP_TIME ?d = Returns s'"
    "events s' = events ?d" "rng_stats s' = rng_stats ?d"
    "exitstatus ?d = EXIT_OSERR \<longrightarrow> exitstatus s' = EXIT_OSERR"
    by blast
  have "main_loop (ws @ w # rest) t s = Returns s'"
    using pre step s'(1) by simp
  moreover have "events s' = events ?a @ dump_lines (rng_stats s')"
    using s'(2,3) by simp
  moreover have "list_ex is_worker_fatal (while_asleep w) \<longrightarrow> exitstatus s' = EXIT_OSERR"
    using s'(4) by (simp add: after_sleep_exitstatus)
  ultimately show ?thesis by blast
qed

lemma main_loop_fatal_before_check:
  assumes q: "\<forall>v\<in>set ws. quiet v" and nt: "\<not> gotsigterm s"
    and free: "mutexes_free (rng_stats s)"
    and fb: "list_ex is_worker_fatal (before_check w)"
  shows "\<exists>s'. main_loop (ws @ w # rest) t s = Returns s' \<and> exitstatus s' = EXIT_OSERR"
proof -
  from main_loop_quiet [OF q nt free, of t]
  obtain t1 s1 where
    pre: "\<forall>rest. main_loop (ws @ rest) t s = main_loop rest t1 s1"
    by blast
  let ?c = "fold deliver (before_check w) s1"
  from fb have "list_ex requests_termination (before_check w)"
    by (auto simp: list_ex_iff dest: is_worker_fatal_requests)
  then have "gotsigterm ?c"
    by (simp add: fold_deliver_gotsigterm)
  then have "main_loop (w # rest) t1 s1 = Returns ?c"
    by (rule main_loop_check_exit)
  moreover have "exitstatus ?c = EXIT_OSERR"
    using fb by (simp add: fold_deliver_exitstatus)
  ultimately show ?thesis using pre by simp
qed

lemma main_kernel_unsupported:
  fixes s0 :: "('w::len, 'z::zero) rngd"
  assumes "kernel_mode_res e = KERNEL_UNSUPPORTED"
  shows "main args e s0 =
           die EXIT_OSERR (emit [ALOGE ''Unsupported kernel detected, exiting...'' []]
                             (s0\<lparr>kernel := KERNEL_UNSUPPORTED\<rparr>))"
  using assms
  by (simp add: main_def main_prologue_def main_startup_def main_check_kernel_eq die_def
      and_then_simps)

lemma main_is_daemonize:
  fixes s0 :: "('w::len, 'z::zero) rngd"
  assumes "kernel_mode_res e \<noteq> KERNEL_UNSUPPORTED"
  shows "\<exists>s2. daemon_lockfp s2 = daemon_lockfp s0 \<and>
              main_startup args e s0 = main_daemonize args e s2"
proof -
  let ?s2 = "s0\<lparr>kernel := kernel_mode_res e,
                 rng_stats := snd (init_rng_stats (rng_buffers args)),
                 events := events s0 @ map Close_fd [3..<250]
                   @ [Set_stat_prefix ''stats: '', Init_sighandlers, Init_entropy_source,
                      Init_kernel_rng]\<rparr>"
  have "main_startup args e s0 = main_daemonize args e ?s2"
    using assms
    by (simp add: main_startup_def main_check_kernel_eq and_then_simps main_init_eq
        del: upt_rec_numeral)
  moreover have "daemon_lockfp ?s2 = daemon_lockfp s0" by simp
  ultimately show ?thesis by blast
qed

lemma main_exit_status_startup:
  fixes s0 :: "('w::len, 'z::zero) rngd"
  assumes "exit_status (main_startup args e s0) = Some c"
  shows "exit_status (main args e s0) = Some c"
  using assms
  by (simp add: main_def main_prologue_def exit_status_and_then_Exits)

lemma main_lock_fails:
  fixes s0 :: "('w::len, 'z::zero) rngd"
  assumes "kernel_mode_res e \<noteq> KERNEL_UNSUPPORTED" "daemon args" "daemon_lockfp s0 = None"
    "lock_fails (lock e)"
  shows "exit_status (main args e s0) = Some EXIT_USAGE"
proof -
  from main_is_daemonize [OF assms(1), of s0 args]
  obtain s2 where s2: "daemon_lockfp s2 = daemon_lockfp s0"
    "main_startup args e s0 = main_daemonize args e s2" by blast
  with assms have "exit_status (main_startup args e s0) = Some EXIT_USAGE"
    by (simp add: main_daemonize_lock_fails)
  then show ?thesis by (rule main_exit_status_startup)
qed

lemma main_daemon_fails:
  fixes s0 :: "('w::len, 'z::zero) rngd"
  assumes "kernel_mode_res e \<noteq> KERNEL_UNSUPPORTED" "daemon args" "daemon_lockfp s0 = None"
    "lock_acquired (lock e)" "daemon_res e <s 0"
  shows "exit_status (main args e s0) = Some EXIT_OSERR"
proof -
  from main_is_daemonize [OF assms(1), of s0 args]
  obtain s2 where s2: "daemon_lockfp s2 = daemon_lockfp s0"
    "main_startup args e s0 = main_daemonize args e s2" by blast
  from s2(1) assms(3) have "daemon_lockfp s2 = None" by simp
  from main_daemonize_lock_acquired [OF assms(2) this assms(4)] assms(5)
  have "exit_status (main_daemonize args e s2) = Some EXIT_OSERR"
    by auto
  then have "exit_status (main_startup args e s0) = Some EXIT_OSERR"
    by (simp add: s2(2))
  then show ?thesis by (rule main_exit_status_startup)
qed

lemma main_threads_fail:
  fixes s0 :: "('w::len, 'z::zero) rngd"
  assumes "main_startup args e s0 = Returns s3" "pthread_create_res e = (r1, r2, r3)"
    "r1 \<noteq> 0 \<or> r2 \<noteq> 0 \<or> r3 \<noteq> 0"
  shows "exit_status (main args e s0) = Some EXIT_OSERR"
proof -
  from assms(3) have "\<not> (r1 = 0 \<and> r2 = 0 \<and> r3 = 0)" by blast
  then have "exit_status (main_start_threads args e s3) = Some EXIT_OSERR"
    by (simp add: main_start_threads_eq [OF assms(2)] Let_def die_exit_status)
  then have "exit_status (main_prologue args e s0) = Some EXIT_OSERR"
    by (simp add: main_prologue_def assms(1) and_then_simps)
  then show ?thesis
    by (simp add: main_def exit_status_and_then_Exits)
qed

lemma main_after_loop:
  fixes s0 :: "('w::len, 'z::zero) rngd"
  assumes "main_prologue args e s0 = Returns s4"
    "main_loop (schedule e) RNGD_STAT_SLEEP_TIME s4 = Returns s'"
  shows "main args e s0 =
           Exits (exitstatus s')
             (s'\<lparr>events := events s' @
                 [if exitstatus s' = EXIT_SUCCESS then ALOGI ''Exiting...'' []
                  else ALOGE ''Exiting with status %d'' [Status (exitstatus s')]]\<rparr>)"
  by (simp add: main_def assms and_then_simps main_exit_eq)

lemma sample_env_facts:
  "kernel_mode_res sample_env \<noteq> KERNEL_UNSUPPORTED"
  "lock_acquired (lock sample_env)"
  "\<not> daemon_res sample_env <s 0"
  "pthread_create_res sample_env = (0, 0, 0)"
  "lock_fails sample_lock_env"
  by (simp_all add: sample_env_def sample_lock_env_def lock_acquired_def lock_fails_def
      flock_outcome_def word_sless_alt)

lemma sample_start_facts:
  "daemon default_arguments"
  "daemon_lockfp (initial_state :: ('w::len, 'z::zero) rngd) = None"
  "\<not> gotsigterm (initial_state :: ('w::len, 'z::zero) rngd)"
  by (simp_all add: default_arguments_def initial_state_def)

lemma filter_pthread_Flock: "filter is_pthread_create (map Flock calls) = []"
  by (induction calls) simp_all

lemma filter_pthread_Close_fd: "filter is_pthread_create (map Close_fd ns) = []"
  by (induction ns) simp_all

lemma get_lock_no_threads:
  "filter is_pthread_create (events (final_state (get_lock env name s)))
     = filter is_pthread_create (events s)"
  by (auto simp: get_lock_def and_then_def die_def emit_def Let_def filter_pthread_Flock
      split: option.splits prod.splits flock_result.splits)

lemma main_daemonize_no_threads:
  "filter is_pthread_create (events (final_state (main_daemonize args e s)))
     = filter is_pthread_create (events s)"
proof (cases "daemon args")
  case False
  then show ?thesis by (simp add: main_daemonize_not)
next
  case True
  let ?g = "get_lock (lock e) (pidfile_name args) s"
  have g: "filter is_pthread_create (events (final_state ?g)) = filter is_pthread_create (events s)"
    by (rule get_lock_no_threads)
  show ?thesis
  proof (cases ?g)
    case (Returns s1)
    with g have s1: "filter is_pthread_create (events s1) = filter is_pthread_create (events s)"
      by simp
    from True Returns show ?thesis
      by (simp add: main_daemonize_def and_then_simps Let_def get_lock_no_threads emit_def s1)
  next
    case (Exits c s1)
    with g True show ?thesis
      by (simp add: main_daemonize_def and_then_simps)
  next
    case (Blocks s1)
    with g True show ?thesis
      by (simp add: main_daemonize_def and_then_simps)
  qed
qed

lemma main_startup_no_threads:
  fixes s0 :: "('w::len, 'z::zero) rngd"
  assumes "main_startup args e s0 = Returns s3"
  shows "filter is_pthread_create (events s3) = filter is_pthread_create (events s0)"
proof -
  from main_startup_Returns(5) [OF assms] have k: "kernel_mode_res e \<noteq> KERNEL_UNSUPPORTED" .
  let ?s2 = "s0\<lparr>kernel := kernel_mode_res e,
                 rng_stats := snd (init_rng_stats (rng_buffers args)),
                 events := events s0 @ map Close_fd [3..<250]
                   @ [Set_stat_prefix ''stats: '', Init_sighandlers, Init_entropy_source,
                      Init_kernel_rng]\<rparr>"
  from assms k have "main_daemonize args e ?s2 = Returns s3"
    by (simp add: main_startup_def main_check_kernel_eq and_then_simps main_init_eq
        del: upt_rec_numeral)
  then have "s3 = final_state (main_daemonize args e ?s2)" by simp
  then have "filter is_pthread_create (events s3) = filter is_pthread_create (events ?s2)"
    by (simp only: main_daemonize_no_threads)
  also have "\<dots> = filter is_pthread_create (events s0)"
    by (simp add: filter_pthread_Close_fd del: upt_rec_numeral)
  finally show ?thesis .
qed

section \<open>The claims\<close>

subsection \<open>Statistics\<close>

text \<open>
  Claim C6. The statistics dump only reads the counters: when \<^verbatim>\<open>dump_rng_stats\<close>
  returns, the whole statistics structure, every counter, every field that
  \<^verbatim>\<open>rngd.c\<close> does not name and the three mutexes, is what it was before the call. The
  call returns whenever the three mutexes are free.
\<close>

theorem dump_rng_stats_frame:
  "(mutexes_free s \<longrightarrow> (\<exists>out. dump_rng_stats s = Some (out, s))) \<and>
   (\<forall>out s'. dump_rng_stats s = Some (out, s') \<longrightarrow> s' = s)"
  by (simp add: dump_rng_stats_eq)

text \<open>The statistics as \<^verbatim>\<open>init_rng_stats(3)\<close> leaves them: the dump returns, unchanged.\<close>

theorem dump_rng_stats_frame_witness:
  "mutexes_free (snd (init_rng_stats 3) :: (32, nat) rng_stats_scheme) \<and>
   (\<exists>out. dump_rng_stats (snd (init_rng_stats 3) :: (32, nat) rng_stats_scheme)
            = Some (out, snd (init_rng_stats 3)))"
proof -
  let ?s = "snd (init_rng_stats 3) :: (32, nat) rng_stats_scheme"
  have free: "mutexes_free ?s" by (rule init_mutexes_free)
  from dump_rng_stats_frame [of ?s] free
  obtain out where "dump_rng_stats ?s = Some (out, ?s)" by blast
  with free show ?thesis by blast
qed

text \<open>
  Claim C10. The first two lines of a dump print, with \<^verbatim>\<open>%d\<close>, the byte counters
  times 8: the value logged is \<^verbatim>\<open>bytes_received * 8\<close> (and \<^verbatim>\<open>bytes_sent * 8\<close>)
  reduced modulo \<open>2 ^ 32\<close>, and read as a signed \<^verbatim>\<open>int\<close> it is the true product
  exactly when the byte count is below \<open>2 ^ 28\<close>. The counters are at least as wide
  as an \<^verbatim>\<open>int\<close>.
\<close>

theorem dump_rng_stats_bits:
  fixes s :: "('w::len, 'z) rng_stats_scheme"
  assumes "32 \<le> LENGTH('w)" and "dump_rng_stats s = Some (out, s')"
  shows "\<exists>v1 v2.
           take 2 out = [ALOGV ''%d bits received from HRNG source'' [D v1],
                         ALOGV ''%d bits send to kernel pool'' [D v2]] \<and>
           uint v1 = (uint (bytes_received s) * 8) mod 2 ^ 32 \<and>
           uint v2 = (uint (bytes_sent s) * 8) mod 2 ^ 32 \<and>
           (sint v1 = uint (bytes_received s) * 8 \<longleftrightarrow> uint (bytes_received s) < 2 ^ 28) \<and>
           (sint v2 = uint (bytes_sent s) * 8 \<longleftrightarrow> uint (bytes_sent s) < 2 ^ 28)"
proof -
  let ?v1 = "word_of_int (uint (bytes_received s) * 8) :: 32 word"
  let ?v2 = "word_of_int (uint (bytes_sent s) * 8) :: 32 word"
  from assms(2) have out: "out = dump_lines s"
    by (auto simp: dump_rng_stats_eq split: if_splits)
  have "take 2 out = [ALOGV ''%d bits received from HRNG source'' [D ?v1],
                      ALOGV ''%d bits send to kernel pool'' [D ?v2]]"
    unfolding out dump_lines_def as_int_def
    by (simp only: ucast_times8 [OF assms(1)]) simp
  moreover have "uint ?v1 = (uint (bytes_received s) * 8) mod 2 ^ 32"
    "uint ?v2 = (uint (bytes_sent s) * 8) mod 2 ^ 32"
    by (simp_all only: uint_word_of_int) simp_all
  moreover have "sint ?v1 = uint (bytes_received s) * 8 \<longleftrightarrow> uint (bytes_received s) < 2 ^ 28"
    by (rule sint_times8_exact) simp
  moreover have "sint ?v2 = uint (bytes_sent s) * 8 \<longleftrightarrow> uint (bytes_sent s) < 2 ^ 28"
    by (rule sint_times8_exact) simp
  ultimately show ?thesis by blast
qed

text \<open>With 32-bit counters and \<open>2 ^ 28\<close> bytes received, 5 bytes sent.\<close>

theorem dump_rng_stats_bits_witness:
  "32 \<le> LENGTH(32) \<and>
   dump_rng_stats sample_stats = Some (dump_lines sample_stats, sample_stats) \<and>
   (\<exists>v1 v2.
      take 2 (dump_lines sample_stats) =
        [ALOGV ''%d bits received from HRNG source'' [D v1],
         ALOGV ''%d bits send to kernel pool'' [D v2]] \<and>
      uint v1 = (uint (bytes_received sample_stats) * 8) mod 2 ^ 32 \<and>
      uint v2 = (uint (bytes_sent sample_stats) * 8) mod 2 ^ 32 \<and>
      (sint v1 = uint (bytes_received sample_stats) * 8
         \<longleftrightarrow> uint (bytes_received sample_stats) < 2 ^ 28) \<and>
      (sint v2 = uint (bytes_sent sample_stats) * 8
         \<longleftrightarrow> uint (bytes_sent sample_stats) < 2 ^ 28))"
proof -
  have h1: "32 \<le> LENGTH(32)" by simp
  have h2: "dump_rng_stats sample_stats = Some (dump_lines sample_stats, sample_stats)"
    by (rule dump_rng_stats_free) (rule sample_stats_free)
  from dump_rng_stats_bits [OF h1 h2] h1 h2 show ?thesis by (intro conjI)
qed

text \<open>
  Claim C8. \<^verbatim>\<open>init_rng_stats(n)\<close> clears every counter (and every field that is not
  named, and leaves the mutexes free) except \<^verbatim>\<open>buffer_lowmark\<close>, which becomes
  \<open>n - 1\<close>. Whatever numbers of ready buffers are observed afterwards, the mark
  stays at or below \<open>n - 1\<close>; for a positive buffer count the mark is the integer
  \<open>n - 1\<close>, and observing all \<open>n\<close> buffers ready leaves it there.
\<close>

theorem init_rng_stats_counters:
  fixes n :: "32 word" and s :: "('w::len, 'z::zero) rng_stats_scheme"
  assumes "init_rng_stats n = (es, s)"
  shows "es = [Set_stat_prefix ''stats: ''] \<and>
         bytes_received s = 0 \<and> bytes_sent s = 0 \<and> entropy_sent s = 0 \<and>
         good_fips_blocks s = 0 \<and> bad_fips_blocks s = 0 \<and> rng_stats.more s = 0 \<and>
         mutexes_free s \<and>
         buffer_lowmark s = scast (n - 1) \<and>
         (\<forall>ks. buffer_lowmark (fold note_ready ks s) \<le> scast (n - 1)) \<and>
         (0 <s n \<and> 32 \<le> LENGTH('w) \<longrightarrow>
            uint (buffer_lowmark s) = sint n - 1 \<and>
            buffer_lowmark (note_ready (scast n) s) = scast (n - 1))"
proof -
  from assms have s: "s = snd (init_rng_stats n)" and es: "es = fst (init_rng_stats n :: event list \<times> ('w, 'z) rng_stats_scheme)"
    by (simp_all add: prod_eq_iff)
  have low: "buffer_lowmark s = scast (n - 1)"
    by (simp add: s init_rng_stats_def)
  have zero: "es = [Set_stat_prefix ''stats: '']"
    "bytes_received s = 0" "bytes_sent s = 0" "entropy_sent s = 0"
    "good_fips_blocks s = 0" "bad_fips_blocks s = 0" "rng_stats.more s = 0"
    by (simp_all add: s es init_rng_stats_def)
  have free: "mutexes_free s"
    unfolding s by (rule init_mutexes_free)
  have cap: "buffer_lowmark (fold note_ready ks s) \<le> scast (n - 1)" for ks
    by (simp only: fold_note_ready_lowmark low fold_min_le)
  have pos: "uint (buffer_lowmark s) = sint n - 1 \<and>
             buffer_lowmark (note_ready (scast n) s) = scast (n - 1)"
    if n: "0 <s n" and w: "32 \<le> LENGTH('w)"
  proof -
    from n have "0 < sint n" by (simp add: word_sless_alt)
    then have nn: "0 \<le> sint n" and pn: "0 \<le> sint (n - 1)"
      by (simp_all add: sint_pred [OF n])
    have u1: "uint (scast (n - 1) :: 'w word) = sint n - 1"
      using uint_scast_nonneg [OF pn w] by (simp only: sint_pred [OF n])
    have u2: "uint (scast n :: 'w word) = sint n"
      by (rule uint_scast_nonneg [OF nn w])
    have "\<not> (scast n :: 'w word) < scast (n - 1)"
      by (simp add: word_less_def u1 u2)
    then have "buffer_lowmark (note_ready (scast n) s) = scast (n - 1)"
      by (simp add: note_ready_def low)
    with u1 low show ?thesis by simp
  qed
  from zero free low cap pos show ?thesis by blast
qed

text \<open>Three buffers, the default: the mark starts at 2.\<close>

theorem init_rng_stats_counters_witness:
  "init_rng_stats 3 = ([Set_stat_prefix ''stats: ''], snd (init_rng_stats 3) :: (32, nat) rng_stats_scheme) \<and>
   0 <s (3 :: 32 word) \<and> 32 \<le> LENGTH(32) \<and>
   bytes_received (snd (init_rng_stats 3) :: (32, nat) rng_stats_scheme) = 0 \<and>
   uint (buffer_lowmark (snd (init_rng_stats 3) :: (32, nat) rng_stats_scheme)) = 2 \<and>
   buffer_lowmark (note_ready 3 (snd (init_rng_stats 3) :: (32, nat) rng_stats_scheme)) = 2"
proof -
  let ?s = "snd (init_rng_stats 3) :: (32, nat) rng_stats_scheme"
  have h: "init_rng_stats 3 = ([Set_stat_prefix ''stats: ''], ?s)"
    by (simp add: init_rng_stats_def)
  have p: "0 <s (3 :: 32 word)" "32 \<le> LENGTH(32)"
    by (simp_all add: word_sless_alt)
  from init_rng_stats_counters [OF h] p h show ?thesis by simp
qed

text \<open>
  Claim C4, as stated, fails: a dump does not reset \<^verbatim>\<open>buffer_lowmark\<close>. A dump
  entered with the mark at 0 returns with the mark at 0, and entered with 1 returns
  with 1; after observing 0 ready buffers, dumping and then observing 2, the mark is 0,
  a level seen only before the dump.
\<close>

theorem buffer_lowmark_reset_counterexample:
  "map_option (buffer_lowmark \<circ> snd)
     (dump_rng_stats ((snd (init_rng_stats 3) :: (32, nat) rng_stats_scheme)\<lparr>buffer_lowmark := 0\<rparr>))
     = Some 0 \<and>
   map_option (buffer_lowmark \<circ> snd)
     (dump_rng_stats ((snd (init_rng_stats 3) :: (32, nat) rng_stats_scheme)\<lparr>buffer_lowmark := 1\<rparr>))
     = Some 1 \<and>
   map_option buffer_lowmark
     (run_stats_ops [Note_ready 0, Dump_stats, Note_ready 2]
        (snd (init_rng_stats 3) :: (32, nat) rng_stats_scheme))
     = Some 0"
  by (simp add: dump_rng_stats_eq mutexes_free_def init_rng_stats_def pthread_mutex_init_def
      note_ready_def)

text \<open>
  Claim C4, amended. \<^verbatim>\<open>buffer_lowmark\<close> is the minimum of \<open>n - 1\<close> and of every
  number of ready buffers observed since \<^verbatim>\<open>init_rng_stats\<close>: a dump returns with the
  mark it was entered with, so dumps in the history do not restart it.
\<close>

theorem buffer_lowmark_since_init:
  fixes n :: "32 word" and s :: "('w::len, 'z::zero) rng_stats_scheme"
  shows "map_option (buffer_lowmark \<circ> snd) (dump_rng_stats s)
           = (if mutexes_free s then Some (buffer_lowmark s) else None) \<and>
         map_option buffer_lowmark
           (run_stats_ops ops (snd (init_rng_stats n) :: ('w, 'z) rng_stats_scheme))
           = Some (fold min (observed ops) (scast (n - 1)))"
proof -
  let ?i = "snd (init_rng_stats n) :: ('w, 'z) rng_stats_scheme"
  have low: "buffer_lowmark ?i = scast (n - 1)"
    by (simp add: init_rng_stats_def)
  have free: "mutexes_free ?i"
    by (rule init_mutexes_free)
  from run_stats_ops_lowmark [OF free, of ops] low
  have "map_option buffer_lowmark (run_stats_ops ops ?i) = Some (fold min (observed ops) (scast (n - 1)))"
    by auto
  then show ?thesis
    by (simp add: dump_rng_stats_eq)
qed

subsection \<open>The daemon lock\<close>



text \<open>
  Claim C9. Called with the lock file already open, \<^verbatim>\<open>get_lock\<close> emits no event (no
  \<^verbatim>\<open>open\<close>, no \<^verbatim>\<open>flock\<close>) and returns with the pidfile holding exactly the
  decimal pid of the caller and a newline. In \<^verbatim>\<open>main\<close>, once the first call has taken
  the lock and \<^verbatim>\<open>daemon\<close> has succeeded, the second call leaves the pid of the daemon
  in the pidfile, and the only \<^verbatim>\<open>open\<close> and \<^verbatim>\<open>flock\<close> calls are those of the first.
\<close>

theorem get_lock_update_pid:
  fixes s :: "('w, 'z) rngd"
  shows "(\<forall>fp. daemon_lockfp s = Some fp \<longrightarrow>
            get_lock env name s =
              Returns (s\<lparr>daemon_lockfp :=
                          Some \<lparr> file_bytes = fmt_ld (sint (getpid_res env)) @ [CHR 0x0A],
                                 file_pos = Suc (length (fmt_ld (sint (getpid_res env)))) \<rparr>\<rparr>)) \<and>
         (\<forall>bytes k rest.
            daemon args \<and> daemon_lockfp s = None \<and> open_res (lock e) = Some bytes \<and>
            fdopen_ok (lock e) \<and>
            flock_res (lock e) = replicate k (Flock_fail EINTR) @ Flock_ok # rest \<and>
            \<not> daemon_res e <s 0 \<longrightarrow>
            main_daemonize args e s =
              Returns (s\<lparr>daemon_lockfp :=
                          Some \<lparr> file_bytes = fmt_ld (sint (daemon_pid e)) @ [CHR 0x0A],
                                 file_pos = Suc (length (fmt_ld (sint (daemon_pid e)))) \<rparr>,
                        am_daemon := True,
                        events := events s
                          @ [Open_rdwr_creat (pidfile_name args), Fdopen, Fcntl_setfd]
                          @ replicate k (Flock (Flock_fail EINTR))
                          @ [Flock Flock_ok, Daemon (daemon_res e)]\<rparr>))"
proof (intro conjI allI impI)
  fix fp
  assume "daemon_lockfp s = Some fp"
  then show "get_lock env name s =
              Returns (s\<lparr>daemon_lockfp :=
                          Some \<lparr> file_bytes = fmt_ld (sint (getpid_res env)) @ [CHR 0x0A],
                                 file_pos = Suc (length (fmt_ld (sint (getpid_res env)))) \<rparr>\<rparr>)"
    by (simp add: get_lock_again write_pid_eq)
next
  fix bytes k rest
  assume h: "daemon args \<and> daemon_lockfp s = None \<and> open_res (lock e) = Some bytes \<and>
            fdopen_ok (lock e) \<and>
            flock_res (lock e) = replicate k (Flock_fail EINTR) @ Flock_ok # rest \<and>
            \<not> daemon_res e <s 0"
  then have first: "get_lock (lock e) (pidfile_name args) s =
           Returns (s\<lparr>daemon_lockfp := Some (write_pid (getpid_res (lock e)) \<lparr>file_bytes = bytes, file_pos = 0\<rparr>),
                     events := events s @ [Open_rdwr_creat (pidfile_name args), Fdopen, Fcntl_setfd]
                        @ replicate k (Flock (Flock_fail EINTR)) @ [Flock Flock_ok]\<rparr>)"
    by (intro get_lock_acquired) simp_all
  from h show "main_daemonize args e s =
              Returns (s\<lparr>daemon_lockfp :=
                          Some \<lparr> file_bytes = fmt_ld (sint (daemon_pid e)) @ [CHR 0x0A],
                                 file_pos = Suc (length (fmt_ld (sint (daemon_pid e)))) \<rparr>,
                        am_daemon := True,
                        events := events s
                          @ [Open_rdwr_creat (pidfile_name args), Fdopen, Fcntl_setfd]
                          @ replicate k (Flock (Flock_fail EINTR))
                          @ [Flock Flock_ok, Daemon (daemon_res e)]\<rparr>)"
    by (simp add: main_daemonize_def first and_then_def Let_def emit_def get_lock_again write_pid_eq)
qed

text \<open>Process 100 rewriting a pidfile that held 4321, and the daemon 101 after the fork.\<close>

theorem get_lock_update_pid_witness:
  "daemon_lockfp ((initial_state :: (32, nat) rngd)\<lparr>daemon_lockfp := Some \<lparr>file_bytes = ''4321'' @ [CHR 0x0A], file_pos = 5\<rparr>\<rparr>)
     = Some \<lparr>file_bytes = ''4321'' @ [CHR 0x0A], file_pos = 5\<rparr> \<and>
   get_lock sample_lock_env PIDFILE
     ((initial_state :: (32, nat) rngd)\<lparr>daemon_lockfp := Some \<lparr>file_bytes = ''4321'' @ [CHR 0x0A], file_pos = 5\<rparr>\<rparr>)
     = Returns (initial_state\<lparr>daemon_lockfp := Some \<lparr>file_bytes = ''100'' @ [CHR 0x0A], file_pos = 4\<rparr>\<rparr>) \<and>
   main_daemonize default_arguments sample_env (initial_state :: (32, nat) rngd)
     = Returns (initial_state
         \<lparr>daemon_lockfp := Some \<lparr>file_bytes = ''101'' @ [CHR 0x0A], file_pos = 4\<rparr>,
          am_daemon := True,
          events := [Open_rdwr_creat PIDFILE, Fdopen, Fcntl_setfd,
                     Flock (Flock_fail EINTR), Flock Flock_ok, Daemon 0]\<rparr>)"
proof -
  let ?fp = "\<lparr>file_bytes = ''4321'' @ [CHR 0x0A], file_pos = 5\<rparr>"
  let ?s = "(initial_state :: (32, nat) rngd)\<lparr>daemon_lockfp := Some ?fp\<rparr>"
  have a: "daemon_lockfp ?s = Some ?fp" by simp
  have b: "daemon default_arguments \<and> daemon_lockfp (initial_state :: (32, nat) rngd) = None \<and>
           open_res (lock sample_env) = Some (''4321'' @ [CHR 0x0A]) \<and>
           fdopen_ok (lock sample_env) \<and>
           flock_res (lock sample_env) = replicate 1 (Flock_fail EINTR) @ Flock_ok # [] \<and>
           \<not> daemon_res sample_env <s 0"
    by (simp add: default_arguments_def initial_state_def sample_env_def sample_lock_env_def)
  from get_lock_update_pid [of ?s sample_lock_env PIDFILE] a
  have 1: "get_lock sample_lock_env PIDFILE ?s =
              Returns (?s\<lparr>daemon_lockfp :=
                          Some \<lparr> file_bytes = fmt_ld (sint (getpid_res sample_lock_env)) @ [CHR 0x0A],
                                 file_pos = Suc (length (fmt_ld (sint (getpid_res sample_lock_env)))) \<rparr>\<rparr>)"
    by blast
  from get_lock_update_pid [of "initial_state :: (32, nat) rngd" _ _ default_arguments sample_env] b
  have 2: "main_daemonize default_arguments sample_env (initial_state :: (32, nat) rngd) =
              Returns (initial_state\<lparr>daemon_lockfp :=
                          Some \<lparr> file_bytes = fmt_ld (sint (daemon_pid sample_env)) @ [CHR 0x0A],
                                 file_pos = Suc (length (fmt_ld (sint (daemon_pid sample_env)))) \<rparr>,
                        am_daemon := True,
                        events := events (initial_state :: (32, nat) rngd)
                          @ [Open_rdwr_creat (pidfile_name default_arguments), Fdopen, Fcntl_setfd]
                          @ replicate 1 (Flock (Flock_fail EINTR))
                          @ [Flock Flock_ok, Daemon (daemon_res sample_env)]\<rparr>)"
    by blast
  have p: "getpid_res sample_lock_env = 100" "daemon_pid sample_env = 101"
    "daemon_res sample_env = 0" "pidfile_name default_arguments = PIDFILE"
    "events (initial_state :: (32, nat) rngd) = []"
    by (simp_all add: sample_lock_env_def sample_env_def default_arguments_def initial_state_def)
  from a 1 2 show ?thesis
    by (simp add: p fmt_ld_100 fmt_ld_101)
qed

subsection \<open>The main thread\<close>

text \<open>
  Claim C5. The wait loop is entered with a sleep time of 3600 seconds. When the
  thread wakes because the time is up (\<^verbatim>\<open>sleep\<close> returned 0), or with the dump-stats
  flag set, or with the termination flag set, it logs the five lines of a statistics
  dump, goes on with a sleep time of 3600, and the dump-stats flag is clear. The loop
  ends at the first evaluation of its condition that finds the termination flag set:
  it returns only with the flag set, and it returns exactly when the flag is set on
  entry or some pass of the schedule brings a termination request.
\<close>

theorem main_loop_wakes:
  fixes s :: "('w::len, 'z) rngd" and s0 :: "('v::len, 'y::zero) rngd"
  shows "main args e s0 =
           and_then (main_prologue args e s0)
             (\<lambda>s4. and_then (main_loop (schedule e) 3600 s4) main_exit) \<and>
         (\<not> gotsigterm (fold deliver (before_check w) s) \<and> mutexes_free (rng_stats s) \<and>
          (sleep_res w = 0 \<or> gotsigusr1 (after_sleep w t s) \<or> gotsigterm (after_sleep w t s)) \<longrightarrow>
            main_loop (w # ws) t s =
              main_loop ws 3600
                ((after_sleep w t s)
                   \<lparr>events := events s @ [Sleep t (sleep_res w)] @ dump_lines (rng_stats s),
                    gotsigusr1 := False\<rparr>)) \<and>
         (gotsigterm (fold deliver (before_check w) s) \<longrightarrow>
            main_loop (w # ws) t s = Returns (fold deliver (before_check w) s)) \<and>
         (\<forall>s'. main_loop ws t s = Returns s' \<longrightarrow> gotsigterm s') \<and>
         (mutexes_free (rng_stats s) \<longrightarrow>
            ((\<exists>s'. main_loop ws t s = Returns s') \<longleftrightarrow>
             gotsigterm s \<or> (\<exists>w\<in>set ws. \<not> quiet w)))"
proof (intro conjI impI allI)
  show "main args e s0 =
           and_then (main_prologue args e s0)
             (\<lambda>s4. and_then (main_loop (schedule e) 3600 s4) main_exit)"
    by (simp add: main_def RNGD_STAT_SLEEP_TIME_def)
next
  assume h: "\<not> gotsigterm (fold deliver (before_check w) s) \<and> mutexes_free (rng_stats s) \<and>
          (sleep_res w = 0 \<or> gotsigusr1 (after_sleep w t s) \<or> gotsigterm (after_sleep w t s))"
  then have "main_loop (w # ws) t s =
           main_loop ws RNGD_STAT_SLEEP_TIME
             ((after_sleep w t s)
                \<lparr>events := events (after_sleep w t s) @ dump_lines (rng_stats (after_sleep w t s)),
                 gotsigusr1 := False\<rparr>)"
    by (intro main_loop_wake_dump) simp_all
  then show "main_loop (w # ws) t s =
              main_loop ws 3600
                ((after_sleep w t s)
                   \<lparr>events := events s @ [Sleep t (sleep_res w)] @ dump_lines (rng_stats s),
                    gotsigusr1 := False\<rparr>)"
    by (simp add: after_sleep_frame RNGD_STAT_SLEEP_TIME_def)
next
  assume "gotsigterm (fold deliver (before_check w) s)"
  then show "main_loop (w # ws) t s = Returns (fold deliver (before_check w) s)"
    by (rule main_loop_check_exit)
next
  fix s'
  assume "main_loop ws t s = Returns s'"
  then show "gotsigterm s'" by (rule main_loop_Returns_gotsigterm)
next
  assume "mutexes_free (rng_stats s)"
  then show "(\<exists>s'. main_loop ws t s = Returns s') \<longleftrightarrow> gotsigterm s \<or> (\<exists>w\<in>set ws. \<not> quiet w)"
    by (rule main_loop_exits_iff)
qed

text \<open>
  The timer expires, the statistics are dumped, and a termination signal before the next
  evaluation of the loop condition ends the loop.
\<close>

theorem main_loop_wakes_witness:
  "main_loop [\<lparr>before_check = [], sleep_res = 0, while_asleep = []\<rparr>,
              \<lparr>before_check = [SIGTERM], sleep_res = 0, while_asleep = []\<rparr>]
     3600 (initial_state :: (32, nat) rngd)
   = Returns (initial_state
       \<lparr>gotsigterm := True,
        events := Sleep 3600 0 # dump_lines (rng_stats (initial_state :: (32, nat) rngd))\<rparr>) \<and>
   (\<exists>w\<in>set [\<lparr>before_check = [], sleep_res = 0, while_asleep = []\<rparr>,
              \<lparr>before_check = [SIGTERM], sleep_res = 0, while_asleep = []\<rparr>]. \<not> quiet w)"
proof -
  let ?s = "initial_state :: (32, nat) rngd"
  let ?w1 = "\<lparr>before_check = [], sleep_res = 0, while_asleep = []\<rparr>"
  let ?w2 = "\<lparr>before_check = [SIGTERM], sleep_res = 0, while_asleep = []\<rparr>"
  let ?s1 = "(after_sleep ?w1 3600 ?s)
               \<lparr>events := events ?s @ [Sleep 3600 (sleep_res ?w1)] @ dump_lines (rng_stats ?s),
                gotsigusr1 := False\<rparr>"
  have nt: "\<not> gotsigterm ?s" "events ?s = []" "\<not> gotsigusr1 ?s"
    by (simp_all add: initial_state_def)
  have h1: "\<not> gotsigterm (fold deliver (before_check ?w1) ?s) \<and> mutexes_free (rng_stats ?s) \<and>
          (sleep_res ?w1 = 0 \<or> gotsigusr1 (after_sleep ?w1 3600 ?s) \<or> gotsigterm (after_sleep ?w1 3600 ?s))"
    using nt by (simp add: initial_state_free)
  from main_loop_wakes [where w = ?w1 and s = ?s and t = 3600 and ws = "[?w2]"] h1
  have 1: "main_loop (?w1 # [?w2]) 3600 ?s = main_loop [?w2] 3600 ?s1"
    by blast
  have s1: "?s1 = ?s\<lparr>events := Sleep 3600 0 # dump_lines (rng_stats ?s)\<rparr>"
    using nt by (simp add: after_sleep_def emit_def initial_state_def)
  have h2: "gotsigterm (fold deliver (before_check ?w2) ?s1)"
    by simp
  from main_loop_wakes [where w = ?w2 and s = ?s1 and t = 3600 and ws = "[]"] h2
  have 2: "main_loop (?w2 # []) 3600 ?s1 = Returns (fold deliver (before_check ?w2) ?s1)"
    by blast
  have 3: "main_loop [?w1, ?w2] 3600 ?s
             = Returns (?s\<lparr>gotsigterm := True,
                           events := Sleep 3600 0 # dump_lines (rng_stats ?s)\<rparr>)"
    by (simp only: 1 2) (simp add: after_sleep_def emit_def initial_state_def)
  from main_loop_wakes [where s = ?s and t = 3600 and ws = "[?w1, ?w2]"] initial_state_free [where ?'w = 32 and ?'z = nat] 3
  have "gotsigterm ?s \<or> (\<exists>w\<in>set [?w1, ?w2]. \<not> quiet w)"
    by blast
  with nt 3 show ?thesis by blast
qed

text \<open>
  Claim C7. Once \<^verbatim>\<open>main\<close> has come through lines 265 to 302, the buffer pool is
  initialised and then \<^verbatim>\<open>pthread_create\<close> is called three times, for the source loop,
  the FIPS test loop and the sink loop; nothing that follows in the run creates a
  thread. When one of the three calls fails, the process exits with \<^verbatim>\<open>EXIT_OSERR\<close>
  and never sleeps; when all three succeed, the wait loop is entered. The lines before
  create no thread, so the three are all the threads of the run.
\<close>

theorem main_starts_three_threads:
  fixes s0 :: "('w::len, 'z::zero) rngd"
  assumes "main_startup args e s0 = Returns s3" and "pthread_create_res e = (r1, r2, r3)"
  shows "(\<exists>later.
           events (final_state (main args e s0))
             = events s3 @
               [ALOGI ''rngd 2.14 starting up...'' [],
                Init_rng_buffers (rng_buffers args), Init_sighandlers,
                Pthread_create do_rng_data_source_loop r1,
                Pthread_create do_rng_fips_test_loop r2,
                Pthread_create do_rng_data_sink_loop r3] @ later \<and>
           filter is_pthread_create later = [] \<and>
           (r1 \<noteq> 0 \<or> r2 \<noteq> 0 \<or> r3 \<noteq> 0 \<longrightarrow>
              exit_status (main args e s0) = Some EXIT_OSERR \<and> filter is_sleep later = []) \<and>
           (r1 = 0 \<and> r2 = 0 \<and> r3 = 0 \<longrightarrow>
              (\<exists>s4. main_prologue args e s0 = Returns s4 \<and>
                    main args e s0 =
                      and_then (main_loop (schedule e) RNGD_STAT_SLEEP_TIME s4) main_exit))) \<and>
         filter is_pthread_create (events s3) = filter is_pthread_create (events s0)"
proof -
  have three: "\<exists>later.
           events (final_state (main args e s0))
             = events s3 @
               [ALOGI ''rngd 2.14 starting up...'' [],
                Init_rng_buffers (rng_buffers args), Init_sighandlers,
                Pthread_create do_rng_data_source_loop r1,
                Pthread_create do_rng_fips_test_loop r2,
                Pthread_create do_rng_data_sink_loop r3] @ later \<and>
           filter is_pthread_create later = [] \<and>
           (r1 \<noteq> 0 \<or> r2 \<noteq> 0 \<or> r3 \<noteq> 0 \<longrightarrow>
              exit_status (main args e s0) = Some EXIT_OSERR \<and> filter is_sleep later = []) \<and>
           (r1 = 0 \<and> r2 = 0 \<and> r3 = 0 \<longrightarrow>
              (\<exists>s4. main_prologue args e s0 = Returns s4 \<and>
                    main args e s0 =
                      and_then (main_loop (schedule e) RNGD_STAT_SLEEP_TIME s4) main_exit))"
  proof -
  let ?started = "[ALOGI ''rngd 2.14 starting up...'' [],
                Init_rng_buffers (rng_buffers args), Init_sighandlers,
                Pthread_create do_rng_data_source_loop r1,
                Pthread_create do_rng_fips_test_loop r2,
                Pthread_create do_rng_data_sink_loop r3]"
  let ?s4 = "s3\<lparr>masterprocess := (if daemon args then daemon_pid e else getpid_res (lock e)),
                 events := events s3 @ ?started\<rparr>"
  have pro: "main_prologue args e s0 =
               (if r1 = 0 \<and> r2 = 0 \<and> r3 = 0 then Returns ?s4
                else die EXIT_OSERR (emit [ALOGE ''Insufficient resources to start threads'' []] ?s4))"
    by (simp add: main_prologue_def assms(1) and_then_simps main_start_threads_eq [OF assms(2)]
        Let_def)
  show ?thesis
  proof (cases "r1 = 0 \<and> r2 = 0 \<and> r3 = 0")
    case True
    then have p: "main_prologue args e s0 = Returns ?s4"
      unfolding pro by (rule if_P)
    then have m: "main args e s0 = and_then (main_loop (schedule e) RNGD_STAT_SLEEP_TIME ?s4) main_exit"
      by (simp add: main_def and_then_simps)
    from main_wait_events [of "schedule e" RNGD_STAT_SLEEP_TIME ?s4]
    obtain later where "events (final_state (main args e s0)) = events s3 @ ?started @ later"
      "filter is_pthread_create later = []"
      unfolding m by auto
    with True p m show ?thesis by auto
  next
    case False
    let ?later = "ALOGE ''Insufficient resources to start threads'' []
                  # (if am_daemon s3 then [ALOGE ''Exiting with status %d...'' [Status EXIT_OSERR]]
                     else [])"
    from False have "main_prologue args e s0
        = die EXIT_OSERR (emit [ALOGE ''Insufficient resources to start threads'' []] ?s4)"
      unfolding pro by (rule if_not_P)
    then have m: "main args e s0
        = die EXIT_OSERR (emit [ALOGE ''Insufficient resources to start threads'' []] ?s4)"
      by (simp add: main_def and_then_simps die_def)
    have "events (final_state (main args e s0)) = events s3 @ ?started @ ?later"
      "filter is_pthread_create ?later = []" "filter is_sleep ?later = []"
      "exit_status (main args e s0) = Some EXIT_OSERR"
      unfolding m by (simp_all add: die_events die_exit_status emit_def)
    with False show ?thesis by blast
  qed
qed
  show ?thesis
    by (rule conjI [OF three main_startup_no_threads [OF assms(1)]])
qed

text \<open>The sample start, and the same with the second \<^verbatim>\<open>pthread_create\<close> returning 11.\<close>

theorem main_starts_three_threads_witness:
  "(\<exists>s3 later.
      main_startup default_arguments sample_env (initial_state :: (32, nat) rngd) = Returns s3 \<and>
      events (final_state (main default_arguments sample_env (initial_state :: (32, nat) rngd)))
        = events s3 @
          [ALOGI ''rngd 2.14 starting up...'' [], Init_rng_buffers 3, Init_sighandlers,
           Pthread_create do_rng_data_source_loop 0,
           Pthread_create do_rng_fips_test_loop 0,
           Pthread_create do_rng_data_sink_loop 0] @ later \<and>
      filter is_pthread_create later = []) \<and>
   exit_status (main default_arguments (sample_env\<lparr>pthread_create_res := (0, 11, 0)\<rparr>)
                  (initial_state :: (32, nat) rngd)) = Some EXIT_OSERR"
proof -
  let ?s0 = "initial_state :: (32, nat) rngd"
  let ?e4 = "sample_env\<lparr>pthread_create_res := (0, 11, 0)\<rparr>"
  from main_startup_reaches [of sample_env default_arguments ?s0]
  obtain s3 where s3: "main_startup default_arguments sample_env ?s0 = Returns s3"
    using sample_env_facts sample_start_facts by blast
  from main_starts_three_threads [OF s3 sample_env_facts(4)]
  have a: "\<exists>later.
      events (final_state (main default_arguments sample_env ?s0))
        = events s3 @
          [ALOGI ''rngd 2.14 starting up...'' [], Init_rng_buffers 3, Init_sighandlers,
           Pthread_create do_rng_data_source_loop 0,
           Pthread_create do_rng_fips_test_loop 0,
           Pthread_create do_rng_data_sink_loop 0] @ later \<and>
      filter is_pthread_create later = []"
    by (auto simp: default_arguments_def)
  from main_startup_reaches [of ?e4 default_arguments ?s0]
  obtain s4 where s4: "main_startup default_arguments ?e4 ?s0 = Returns s4"
    using sample_env_facts sample_start_facts by (auto simp: sample_env_def)
  have r: "pthread_create_res ?e4 = (0, 11, 0)" by simp
  from main_starts_three_threads [OF s4 r]
  have b: "exit_status (main default_arguments ?e4 ?s0) = Some EXIT_OSERR"
    by auto
  from s3 a b show ?thesis by blast
qed

text \<open>
  Claim C2, as stated, fails: \<^verbatim>\<open>die\<close> does not dump the statistics. On an unsupported
  kernel the process exits through \<^verbatim>\<open>die\<close> and the only line logged is the cause.
\<close>

theorem die_without_dump_counterexample:
  "main default_arguments (sample_env\<lparr>kernel_mode_res := KERNEL_UNSUPPORTED\<rparr>)
     (initial_state :: (32, nat) rngd)
   = Exits EXIT_OSERR
       (initial_state\<lparr>events := [ALOGE ''Unsupported kernel detected, exiting...'' []]\<rparr>) \<and>
   filter is_stats_line [ALOGE ''Unsupported kernel detected, exiting...'' []] = []"
  by (simp add: main_kernel_unsupported die_def emit_def initial_state_def)

text \<open>
  Claim C2, amended. \<^verbatim>\<open>die\<close> exits with the status it is given and logs no
  statistics line. When the first termination request arrives while the main thread is
  asleep in the wait loop, the process exits with \<^verbatim>\<open>exitstatus\<close>, and the last lines
  logged before the exit line are the statistics dump.
\<close>

theorem die_and_exit_dump:
  fixes s :: "('v, 'y) rngd" and s0 :: "('w::len, 'z::zero) rngd"
  shows "exit_status (die status s) = Some status \<and>
         filter is_stats_line (events (final_state (die status s)))
           = filter is_stats_line (events s) \<and>
         (main_prologue args e s0 = Returns s4 \<and> \<not> gotsigterm s0 \<and>
          schedule e = ws @ w # rest \<and> (\<forall>v\<in>set ws. quiet v) \<and>
          \<not> list_ex requests_termination (before_check w) \<and>
          list_ex requests_termination (while_asleep w) \<longrightarrow>
            (\<exists>s' pre.
               main args e s0 = Exits (exitstatus s') s' \<and>
               events s' = pre @ dump_lines (rng_stats s') @
                 [if exitstatus s' = EXIT_SUCCESS then ALOGI ''Exiting...'' []
                  else ALOGE ''Exiting with status %d'' [Status (exitstatus s')]]))"
proof (intro conjI impI)
  show "exit_status (die status s) = Some status"
    by (rule die_exit_status)
  show "filter is_stats_line (events (final_state (die status s)))
           = filter is_stats_line (events s)"
    by (simp add: die_events)
next
  assume h: "main_prologue args e s0 = Returns s4 \<and> \<not> gotsigterm s0 \<and>
          schedule e = ws @ w # rest \<and> (\<forall>v\<in>set ws. quiet v) \<and>
          \<not> list_ex requests_termination (before_check w) \<and>
          list_ex requests_termination (while_asleep w)"
  then have p: "main_prologue args e s0 = Returns s4" and sch: "schedule e = ws @ w # rest"
    and q: "\<forall>v\<in>set ws. quiet v" and nb: "\<not> list_ex requests_termination (before_check w)"
    and ta: "list_ex requests_termination (while_asleep w)"
    by simp_all
  from main_prologue_Returns [OF p] h have free: "mutexes_free (rng_stats s4)"
    and nt: "\<not> gotsigterm s4" by simp_all
  from main_loop_dump_before_exit [OF q nt free nb ta, of rest RNGD_STAT_SLEEP_TIME]
  obtain s1 pre where l: "main_loop (schedule e) RNGD_STAT_SLEEP_TIME s4 = Returns s1"
    and ev: "events s1 = pre @ dump_lines (rng_stats s1)"
    unfolding sch by blast
  let ?line = "if exitstatus s1 = EXIT_SUCCESS then ALOGI ''Exiting...'' []
               else ALOGE ''Exiting with status %d'' [Status (exitstatus s1)]"
  let ?s' = "s1\<lparr>events := events s1 @ [?line]\<rparr>"
  have "main args e s0 = Exits (exitstatus ?s') ?s'"
    using main_after_loop [OF p l] by simp
  moreover have "events ?s' = pre @ dump_lines (rng_stats ?s') @
      [if exitstatus ?s' = EXIT_SUCCESS then ALOGI ''Exiting...'' []
       else ALOGE ''Exiting with status %d'' [Status (exitstatus ?s')]]"
    using ev by simp
  ultimately show "\<exists>s' pre.
               main args e s0 = Exits (exitstatus s') s' \<and>
               events s' = pre @ dump_lines (rng_stats s') @
                 [if exitstatus s' = EXIT_SUCCESS then ALOGI ''Exiting...'' []
                  else ALOGE ''Exiting with status %d'' [Status (exitstatus s')]]"
    by blast
qed

text \<open>The sample start: the termination signal arrives during the second sleep.\<close>

theorem die_and_exit_dump_witness:
  "\<not> gotsigterm (initial_state :: (32, nat) rngd) \<and>
   (\<exists>s4. main_prologue default_arguments sample_env (initial_state :: (32, nat) rngd) = Returns s4) \<and>
   (\<exists>s' pre.
      main default_arguments sample_env (initial_state :: (32, nat) rngd)
        = Exits (exitstatus s') s' \<and>
      events s' = pre @ dump_lines (rng_stats s') @
        [if exitstatus s' = EXIT_SUCCESS then ALOGI ''Exiting...'' []
         else ALOGE ''Exiting with status %d'' [Status (exitstatus s')]])"
proof -
  let ?s0 = "initial_state :: (32, nat) rngd"
  let ?w1 = "\<lparr>before_check = [], sleep_res = 0, while_asleep = []\<rparr>"
  let ?w2 = "\<lparr>before_check = [], sleep_res = 17, while_asleep = [SIGTERM]\<rparr>"
  from main_prologue_reaches [of sample_env default_arguments ?s0]
  obtain s4 where p: "main_prologue default_arguments sample_env ?s0 = Returns s4"
    using sample_env_facts sample_start_facts by blast
  have h: "main_prologue default_arguments sample_env ?s0 = Returns s4 \<and> \<not> gotsigterm ?s0 \<and>
          schedule sample_env = [?w1] @ ?w2 # [] \<and> (\<forall>v\<in>set [?w1]. quiet v) \<and>
          \<not> list_ex requests_termination (before_check ?w2) \<and>
          list_ex requests_termination (while_asleep ?w2)"
    using p by (simp add: sample_start_facts sample_env_def quiet_def)
  from die_and_exit_dump [where args = default_arguments and e = sample_env and ?s0.0 = ?s0
      and ws = "[?w1]" and w = ?w2 and rest = "[]" and ?s4.0 = s4] h
  have "\<exists>s' pre.
      main default_arguments sample_env ?s0 = Exits (exitstatus s') s' \<and>
      events s' = pre @ dump_lines (rng_stats s') @
        [if exitstatus s' = EXIT_SUCCESS then ALOGI ''Exiting...'' []
         else ALOGE ''Exiting with status %d'' [Status (exitstatus s')]]"
    by blast
  with p show ?thesis
    by (simp add: sample_start_facts)
qed

text \<open>
  Claim C3, as stated, fails: a lock failure does not exit with \<^verbatim>\<open>EXIT_OSERR\<close>. With
  the pidfile locked by another process, \<^verbatim>\<open>main\<close> exits with \<^verbatim>\<open>EXIT_USAGE\<close>.
\<close>

theorem lock_failure_exit_code_counterexample:
  "exit_status (main default_arguments (sample_env\<lparr>lock := sample_lock_env\<rparr>)
                  (initial_state :: (32, nat) rngd)) = Some EXIT_USAGE \<and>
   EXIT_USAGE \<noteq> EXIT_OSERR"
proof -
  have "exit_status (main default_arguments (sample_env\<lparr>lock := sample_lock_env\<rparr>)
                  (initial_state :: (32, nat) rngd)) = Some EXIT_USAGE"
    by (rule main_lock_fails)
      (simp_all add: sample_env_facts sample_start_facts sample_env_def)
  then show ?thesis by simp
qed

text \<open>
  Claim C3, amended. An unsupported kernel, a failure of \<^verbatim>\<open>daemon\<close>, a failure to
  create a worker thread, and a worker that gives up on a device failure or a
  kernel-sink failure (as modelled from the spec, and when it is the first to request
  termination) each end the process with \<^verbatim>\<open>EXIT_OSERR\<close>; a lock failure ends it with
  \<^verbatim>\<open>EXIT_USAGE\<close>.
\<close>

theorem main_fatal_exit_codes:
  fixes s0 :: "('w::len, 'z::zero) rngd"
  shows "(kernel_mode_res e = KERNEL_UNSUPPORTED \<longrightarrow>
            exit_status (main args e s0) = Some EXIT_OSERR) \<and>
         (kernel_mode_res e \<noteq> KERNEL_UNSUPPORTED \<and> daemon args \<and> daemon_lockfp s0 = None \<and>
          lock_fails (lock e) \<longrightarrow>
            exit_status (main args e s0) = Some EXIT_USAGE) \<and>
         (kernel_mode_res e \<noteq> KERNEL_UNSUPPORTED \<and> daemon args \<and> daemon_lockfp s0 = None \<and>
          lock_acquired (lock e) \<and> daemon_res e <s 0 \<longrightarrow>
            exit_status (main args e s0) = Some EXIT_OSERR) \<and>
         (main_startup args e s0 = Returns s3 \<and> pthread_create_res e = (r1, r2, r3) \<and>
          (r1 \<noteq> 0 \<or> r2 \<noteq> 0 \<or> r3 \<noteq> 0) \<longrightarrow>
            exit_status (main args e s0) = Some EXIT_OSERR) \<and>
         (main_prologue args e s0 = Returns s4 \<and> \<not> gotsigterm s0 \<and>
          schedule e = ws @ w # rest \<and> (\<forall>v\<in>set ws. quiet v) \<and>
          (list_ex is_worker_fatal (before_check w) \<or>
           \<not> list_ex requests_termination (before_check w) \<and>
           list_ex is_worker_fatal (while_asleep w)) \<longrightarrow>
            exit_status (main args e s0) = Some EXIT_OSERR)"
proof (intro conjI impI)
  assume "kernel_mode_res e = KERNEL_UNSUPPORTED"
  then show "exit_status (main args e s0) = Some EXIT_OSERR"
    by (simp add: main_kernel_unsupported die_exit_status)
next
  assume "kernel_mode_res e \<noteq> KERNEL_UNSUPPORTED \<and> daemon args \<and> daemon_lockfp s0 = None \<and>
          lock_fails (lock e)"
  then show "exit_status (main args e s0) = Some EXIT_USAGE"
    by (intro main_lock_fails) simp_all
next
  assume "kernel_mode_res e \<noteq> KERNEL_UNSUPPORTED \<and> daemon args \<and> daemon_lockfp s0 = None \<and>
          lock_acquired (lock e) \<and> daemon_res e <s 0"
  then show "exit_status (main args e s0) = Some EXIT_OSERR"
    by (intro main_daemon_fails) simp_all
next
  assume "main_startup args e s0 = Returns s3 \<and> pthread_create_res e = (r1, r2, r3) \<and>
          (r1 \<noteq> 0 \<or> r2 \<noteq> 0 \<or> r3 \<noteq> 0)"
  then show "exit_status (main args e s0) = Some EXIT_OSERR"
    by (intro main_threads_fail [of args e s0 s3 r1 r2 r3]) simp_all
next
  assume h: "main_prologue args e s0 = Returns s4 \<and> \<not> gotsigterm s0 \<and>
          schedule e = ws @ w # rest \<and> (\<forall>v\<in>set ws. quiet v) \<and>
          (list_ex is_worker_fatal (before_check w) \<or>
           \<not> list_ex requests_termination (before_check w) \<and>
           list_ex is_worker_fatal (while_asleep w))"
  then have p: "main_prologue args e s0 = Returns s4" and sch: "schedule e = ws @ w # rest"
    and q: "\<forall>v\<in>set ws. quiet v"
    by simp_all
  from main_prologue_Returns [OF p] h have free: "mutexes_free (rng_stats s4)"
    and nt: "\<not> gotsigterm s4" by simp_all
  have "\<exists>s'. main_loop (schedule e) RNGD_STAT_SLEEP_TIME s4 = Returns s' \<and>
             exitstatus s' = EXIT_OSERR"
  proof (cases "list_ex is_worker_fatal (before_check w)")
    case True
    from main_loop_fatal_before_check [OF q nt free True, of rest RNGD_STAT_SLEEP_TIME]
    show ?thesis unfolding sch .
  next
    case False
    with h have nb: "\<not> list_ex requests_termination (before_check w)"
      and fa: "list_ex is_worker_fatal (while_asleep w)" by simp_all
    from fa have ta: "list_ex requests_termination (while_asleep w)"
      by (auto simp: list_ex_iff dest: is_worker_fatal_requests)
    from main_loop_dump_before_exit [OF q nt free nb ta, of rest RNGD_STAT_SLEEP_TIME] fa
    show ?thesis unfolding sch by blast
  qed
  then obtain s' where l: "main_loop (schedule e) RNGD_STAT_SLEEP_TIME s4 = Returns s'"
    and x: "exitstatus s' = EXIT_OSERR" by blast
  show "exit_status (main args e s0) = Some EXIT_OSERR"
    by (simp add: main_after_loop [OF p l] x)
qed

text \<open>One run for each of the fatal conditions.\<close>

theorem main_fatal_exit_codes_witness:
  "exit_status (main default_arguments (sample_env\<lparr>kernel_mode_res := KERNEL_UNSUPPORTED\<rparr>)
                  (initial_state :: (32, nat) rngd)) = Some EXIT_OSERR \<and>
   exit_status (main default_arguments (sample_env\<lparr>lock := sample_lock_env\<rparr>)
                  (initial_state :: (32, nat) rngd)) = Some EXIT_USAGE \<and>
   exit_status (main default_arguments (sample_env\<lparr>daemon_res := - 1\<rparr>)
                  (initial_state :: (32, nat) rngd)) = Some EXIT_OSERR \<and>
   exit_status (main default_arguments (sample_env\<lparr>pthread_create_res := (0, 11, 0)\<rparr>)
                  (initial_state :: (32, nat) rngd)) = Some EXIT_OSERR \<and>
   exit_status (main default_arguments
                  (sample_env\<lparr>schedule :=
                     [\<lparr>before_check = [], sleep_res = 0, while_asleep = []\<rparr>,
                      \<lparr>before_check = [], sleep_res = 5,
                       while_asleep = [Worker_fatal Device_failure]\<rparr>]\<rparr>)
                  (initial_state :: (32, nat) rngd)) = Some EXIT_OSERR \<and>
   exit_status (main default_arguments
                  (sample_env\<lparr>schedule :=
                     [\<lparr>before_check = [Worker_fatal Kernel_sink_failure], sleep_res = 0,
                       while_asleep = []\<rparr>]\<rparr>)
                  (initial_state :: (32, nat) rngd)) = Some EXIT_OSERR"
proof -
  let ?s0 = "initial_state :: (32, nat) rngd"
  let ?e1 = "sample_env\<lparr>kernel_mode_res := KERNEL_UNSUPPORTED\<rparr>"
  let ?e2 = "sample_env\<lparr>lock := sample_lock_env\<rparr>"
  let ?e3 = "sample_env\<lparr>daemon_res := - 1\<rparr>"
  let ?e4 = "sample_env\<lparr>pthread_create_res := (0, 11, 0)\<rparr>"
  let ?w1 = "\<lparr>before_check = [], sleep_res = 0, while_asleep = []\<rparr>"
  let ?w2 = "\<lparr>before_check = [], sleep_res = 5, while_asleep = [Worker_fatal Device_failure]\<rparr>"
  let ?w3 = "\<lparr>before_check = [Worker_fatal Kernel_sink_failure], sleep_res = 0, while_asleep = []\<rparr>"
  let ?e5 = "sample_env\<lparr>schedule := [?w1, ?w2]\<rparr>"
  let ?e6 = "sample_env\<lparr>schedule := [?w3]\<rparr>"
  have 1: "exit_status (main default_arguments ?e1 ?s0) = Some EXIT_OSERR"
    using main_fatal_exit_codes [where e = ?e1 and args = default_arguments and ?s0.0 = ?s0]
    by simp
  have h2: "kernel_mode_res ?e2 \<noteq> KERNEL_UNSUPPORTED \<and> daemon default_arguments \<and>
            daemon_lockfp ?s0 = None \<and> lock_fails (lock ?e2)"
    by (simp add: sample_env_facts sample_start_facts sample_env_def)
  have 2: "exit_status (main default_arguments ?e2 ?s0) = Some EXIT_USAGE"
    using main_fatal_exit_codes [where e = ?e2 and args = default_arguments and ?s0.0 = ?s0] h2
    by blast
  have h3: "kernel_mode_res ?e3 \<noteq> KERNEL_UNSUPPORTED \<and> daemon default_arguments \<and>
            daemon_lockfp ?s0 = None \<and> lock_acquired (lock ?e3) \<and> daemon_res ?e3 <s 0"
    using sample_env_facts
    by (simp add: sample_start_facts word_sless_alt sample_env_def)
  have 3: "exit_status (main default_arguments ?e3 ?s0) = Some EXIT_OSERR"
    using main_fatal_exit_codes [where e = ?e3 and args = default_arguments and ?s0.0 = ?s0] h3
    by blast
  from main_startup_reaches [of ?e4 default_arguments ?s0]
  obtain s3 where s3: "main_startup default_arguments ?e4 ?s0 = Returns s3"
    using sample_env_facts sample_start_facts by (auto simp: sample_env_def)
  have h4: "main_startup default_arguments ?e4 ?s0 = Returns s3 \<and>
            pthread_create_res ?e4 = (0, 11, 0) \<and> ((0::32 word) \<noteq> 0 \<or> (11::32 word) \<noteq> 0 \<or> (0::32 word) \<noteq> 0)"
    using s3 by simp
  have 4: "exit_status (main default_arguments ?e4 ?s0) = Some EXIT_OSERR"
    using main_fatal_exit_codes [where e = ?e4 and args = default_arguments and ?s0.0 = ?s0
        and ?s3.0 = s3 and ?r1.0 = 0 and ?r2.0 = 11 and ?r3.0 = 0] h4
    by blast
  from main_prologue_reaches [of ?e5 default_arguments ?s0]
  obtain s5 where s5: "main_prologue default_arguments ?e5 ?s0 = Returns s5"
    using sample_env_facts sample_start_facts by (auto simp: sample_env_def)
  have h5: "main_prologue default_arguments ?e5 ?s0 = Returns s5 \<and> \<not> gotsigterm ?s0 \<and>
          schedule ?e5 = [?w1] @ ?w2 # [] \<and> (\<forall>v\<in>set [?w1]. quiet v) \<and>
          (list_ex is_worker_fatal (before_check ?w2) \<or>
           \<not> list_ex requests_termination (before_check ?w2) \<and>
           list_ex is_worker_fatal (while_asleep ?w2))"
    using s5 by (simp add: sample_start_facts quiet_def)
  have 5: "exit_status (main default_arguments ?e5 ?s0) = Some EXIT_OSERR"
    using main_fatal_exit_codes [where e = ?e5 and args = default_arguments and ?s0.0 = ?s0
        and ?s4.0 = s5 and ws = "[?w1]" and w = ?w2 and rest = "[]"] h5
    by blast
  from main_prologue_reaches [of ?e6 default_arguments ?s0]
  obtain s6 where s6: "main_prologue default_arguments ?e6 ?s0 = Returns s6"
    using sample_env_facts sample_start_facts by (auto simp: sample_env_def)
  have h6: "main_prologue default_arguments ?e6 ?s0 = Returns s6 \<and> \<not> gotsigterm ?s0 \<and>
          schedule ?e6 = [] @ ?w3 # [] \<and> (\<forall>v\<in>set []. quiet v) \<and>
          (list_ex is_worker_fatal (before_check ?w3) \<or>
           \<not> list_ex requests_termination (before_check ?w3) \<and>
           list_ex is_worker_fatal (while_asleep ?w3))"
    using s6 by (simp add: sample_start_facts)
  have 6: "exit_status (main default_arguments ?e6 ?s0) = Some EXIT_OSERR"
    using main_fatal_exit_codes [where e = ?e6 and args = default_arguments and ?s0.0 = ?s0
        and ?s4.0 = s6 and ws = "[]" and w = ?w3 and rest = "[]"] h6
    by blast
  from 1 2 3 4 5 6 show ?thesis by (intro conjI)
qed

end
